theory Spec2Isabelle
  imports Complex_Main
begin

section \<open>Values on the bus\<close>

text \<open>
  The servers exchange pickled Python values. A deserialised inbound value is a \<open>pyval\<close>:
  \<open>None\<close>, a bool, an int, a str, a bytes object, a list, a tuple, a set (by its elements)
  or a dictionary. Dictionaries keep their insertion order and are restricted to string
  keys, which is all the two servers ever look up.
\<close>

datatype pyval =
    PyNone
  | PyBool bool
  | PyInt int
  | PyStr string
  | PyBytes string
  | PyList "pyval list"
  | PyTuple "pyval list"
  | PySet "pyval list"
  | PyDict "(string \<times> pyval) list"

text \<open>
  Exceptions: \<open>KeyboardInterrupt\<close> is what SIGINT raises in the job process; every other
  exception the code meets derives from \<open>Exception\<close> and carries the text \<open>str(e)\<close>.
\<close>

datatype exn = KeyboardInterrupt | Exception string

text \<open>\<open>repr(s)\<close> of a string without quotes or escapes: the string between single quotes.\<close>

definition quote :: "string \<Rightarrow> string" where
  "quote s = [CHR 0x27] @ s @ [CHR 0x27]"

text \<open>
  \<open>obj[key]\<close> for a string key: only a dictionary holding the key answers. The text of a
  \<open>KeyError\<close> is the quoted key; a \<open>TypeError\<close> stands with its class name.
\<close>

fun subscript :: "pyval \<Rightarrow> string \<Rightarrow> exn + pyval" where
  "subscript (PyDict d) k =
     (case map_of d k of None \<Rightarrow> Inl (Exception (quote k)) | Some v \<Rightarrow> Inr v)"
| "subscript v k = Inl (Exception ''TypeError'')"

text \<open>The logging levels the sources name: \<open>LOG_LEVEL = 20  # INFO\<close>, \<open>logging.DEBUG\<close>,
  \<open>logging.WARNING\<close>; 40 is the level of the abort messages.\<close>

definition DEBUG :: nat where "DEBUG = 10"
definition INFO :: nat where "INFO = 20"
definition WARNING :: nat where "WARNING = 30"
definition ERROR :: nat where "ERROR = 40"

text \<open>
  One device under test, as \<open>_build_q\<close> assembles it (a \<open>pixel_dict\<close>), and measurement
  data: rows of numbers per SMU channel.
\<close>

record pixel_dict =
  label :: string
  device_label :: string
  layout :: string
  sub_name :: string
  pixel :: int
  sort_string :: string
  pos :: "real list"
  area :: real
  mux_string :: string

type_synonym pixels = "(nat \<times> pixel_dict) list"
type_synonym rows = "real list list"
type_synonym data = "(nat \<times> rows) list"
type_synonym vocs = "(nat \<times> real) list"

text \<open>
  Outbound payloads, before pickling: a string (\<open>"Busy"\<close>, \<open>"Ready"\<close>, \<open>""\<close>), a list of
  device labels, the log record \<open>{"level": l, "msg": m}\<close>, a data record
  \<open>{"data": d, "pixel": p, "sweep": s}\<close> and a spectrum \<open>{"data": d, "timestamp": t}\<close>.
\<close>

datatype payload =
    PStr string
  | PLabels "string list"
  | PLevelMsg nat string
  | PData rows pixel_dict string
  | PSpectrum "real list" real

section \<open>Admission controller: \<open>start_process\<close> and \<open>stop_process\<close>\<close>

text \<open>
  A \<open>multiprocessing.Process\<close> handle. \<open>alive\<close> is what \<open>is_alive()\<close> answers at the moment
  of the call; the dummy process of \<open>main\<close> was never started, so it is not alive and has
  no pid.
\<close>

record process =
  pid :: "nat option"
  alive :: bool

text \<open>
  Every use the job makes of the measurement object (\<open>fabric\<close>, whose code is outside
  these sources), with the arguments the job computes: method calls, attribute
  assignments, and entering and leaving \<open>with fabric() as measurement\<close>.
  \<open>ConnectLight\<close> is the call \<open>connect_instruments(light_address, light_virt, light_recipe)\<close>
  of the spectrum calibration; \<open>ConnectInstruments\<close> the one of \<open>_ivt\<close> with
  \<open>smu_address, smu_port, smu_terminator, smu_plf, smu_two_wire, smu_invert_channels,
  light_address, light_virt, light_recipe\<close>; \<open>SteadyState\<close> carries \<open>t_dwell, nplc,
  settling_delay, source_voltage, set_point\<close>; \<open>Sweep\<close> carries \<open>nplc, settling_delay, start,
  end, points, source_voltage, smart_compliance, vocs\<close>; \<open>TrackMaxPower\<close> carries the dwell
  time, \<open>NPLC, extra, voc_compliance, i_limit\<close>. The pixel dictionary and the data handler
  go with the calls that take them.
\<close>

datatype mcall =
    FabricEnter
  | FabricExit
  | SetCurrentLimit real
  | SetMqttc
  | ConnectLight string bool string
  | ConnectInstruments string string string real bool bool "string option" bool string
  | LeSetIntensity int
  | LeOn
  | LeOff
  | MeasureSpectrum
  | ComplianceCurrentGuess real real real
  | SetMpptCurrentCompliance real
  | SteadyState real real real bool real
  | Sweep real real real real int bool bool "vocs option"
  | RegisterCurve data bool
  | SetMpptVoc vocs
  | TrackMaxPower real real string real real
  | SmEnableOutput bool
  | DisconnectAllInstruments

text \<open>
  What a process does to the outside, in program order. \<open>PublishSingle\<close> is
  \<open>publish.single(topic, pickle.dumps(payload), qos=2, retain=..., hostname=...)\<close>;
  \<open>ProcessStart\<close> is \<open>multiprocessing.Process(target=_run, args=...).start()\<close> with the request
  it was given; \<open>PublisherOpen\<close> is entering \<open>with MQTTQueuePublisher() as mqttc\<close> followed by
  \<open>mqttc.connect(host)\<close> and \<open>mqttc.loop_start()\<close>, \<open>PublisherClose\<close> leaving that block;
  \<open>Log\<close> is \<open>_log(msg, level, mqttc)\<close>; \<open>Append\<close> is
  \<open>mqttc.append_payload(topic, pickle.dumps(payload), retain=...)\<close>; \<open>Call\<close> is a use of
  the measurement object. Calls on the module's console \<open>logger\<close> stay local and are not
  recorded, and so are the publications a driver makes through the data handler while
  one of its calls runs.
\<close>

datatype event =
    PublishSingle string payload nat bool string
  | ProcessStart "nat option" pyval
  | OsKill "nat option"
  | ProcessJoin "nat option"
  | PublisherOpen string
  | PublisherClose
  | Log string nat
  | Append string payload bool
  | Call mcall

text \<open>
  \<open>start_process(cli_args, process, target, args)\<close>. The target is always \<open>_run\<close>; of its
  arguments the request is recorded. \<open>new_pid\<close> is the pid the operating system gives the
  child.
\<close>

definition start_process :: "string \<Rightarrow> process \<Rightarrow> pyval \<Rightarrow> nat \<Rightarrow> process \<times> event list" where
  "start_process mqtthost proc request new_pid =
     (if alive proc = False then
        (let ret_proc = \<lparr>pid = Some new_pid, alive = True\<rparr>
         in (ret_proc,
             [ProcessStart (pid ret_proc) request,
              PublishSingle ''measurement/status'' (PStr ''Busy'') 2 True mqtthost]))
      else
        (proc,
         [PublishSingle ''measurement/log'' (PLevelMsg 30 ''Measurement server busy!'') 2 False
            mqtthost]))"

text \<open>
  \<open>stop_process(cli_args, process)\<close>. \<open>process.join()\<close> has no timeout: \<open>job_exits\<close> says
  whether the job ends after the signal. If it does not, the call never returns: the
  returned handle is \<open>None\<close> and the events are those before the block.
\<close>

definition stop_process :: "string \<Rightarrow> process \<Rightarrow> bool \<Rightarrow> process option \<times> event list" where
  "stop_process mqtthost proc job_exits =
     (if alive proc = True then
        (if job_exits then
           (Some (proc\<lparr>alive := False\<rparr>),
            [OsKill (pid proc), ProcessJoin (pid proc),
             PublishSingle ''measurement/log'' (PLevelMsg 20 ''Request to stop completed!'') 2 False
               mqtthost,
             PublishSingle ''measurement/status'' (PStr ''Ready'') 2 True mqtthost,
             PublishSingle ''plotter/live_devices'' (PLabels []) 2 False mqtthost])
         else (None, [OsKill (pid proc), ProcessJoin (pid proc)]))
      else
        (Some proc,
         [PublishSingle ''measurement/log''
            (PLevelMsg 30 ''Nothing to stop. Measurement server is idle.'') 2 False mqtthost]))"

section \<open>The message handler of the measurement server\<close>

text \<open>
  An inbound MQTT message. \<open>payload\<close> is what \<open>pickle.loads(msg.payload)\<close> returns, \<open>None\<close>
  when it raises.
\<close>

record mqtt_msg =
  topic :: string
  payload :: "pyval option"

text \<open>\<open>str.split(sep)\<close> for a one-character separator: never empty.\<close>

fun split_on :: "char \<Rightarrow> string \<Rightarrow> string list" where
  "split_on c [] = [[]]"
| "split_on c (x # xs) =
     (if x = c then [] # split_on c xs
      else (case split_on c xs of
              [] \<Rightarrow> [[x]]
            | p # ps \<Rightarrow> (x # p) # ps))"

text \<open>The state \<open>msg_handler\<close> carries from one message to the next.\<close>

record server =
  proc :: process
  daq_init_queue :: "pyval list"

text \<open>
  The guard \<open>(request["args"]["enable_eqe"] is True) or (request["args"]["enable_iv"] is True)\<close>,
  with Python's evaluation order: the second lookup happens only when the first flag is
  not \<open>True\<close>.
\<close>

definition run_enabled :: "pyval \<Rightarrow> exn + bool" where
  "run_enabled request =
     (case subscript request ''args'' of
        Inl e \<Rightarrow> Inl e
      | Inr args \<Rightarrow>
          (case subscript args ''enable_eqe'' of
             Inl e \<Rightarrow> Inl e
           | Inr eqe \<Rightarrow>
               if eqe = PyBool True then Inr True
               else (case subscript request ''args'' of
                       Inl e \<Rightarrow> Inl e
                     | Inr args2 \<Rightarrow>
                         (case subscript args2 ''enable_iv'' of
                            Inl e \<Rightarrow> Inl e
                          | Inr iv \<Rightarrow> Inr (iv = PyBool True)))))"

text \<open>
  The \<open>try\<close> block of one iteration. The result is \<open>Inl\<close> when the block raises, otherwise
  the new state (\<open>None\<close> when \<open>stop_process\<close> never returns) and the events.
\<close>

definition msg_handler_try ::
  "string \<Rightarrow> server \<Rightarrow> mqtt_msg \<Rightarrow> nat \<Rightarrow> bool \<Rightarrow> exn + (server option \<times> event list)" where
  "msg_handler_try mqtthost s msg new_pid job_exits =
     (case payload msg of
        None \<Rightarrow> Inl (Exception ''UnpicklingError'')
      | Some request \<Rightarrow>
          (let topic_parts = split_on (CHR ''/'') (topic msg);
               channel = hd topic_parts;
               action = last topic_parts
           in if channel = ''measurement'' then
                (case (if action = ''run'' then run_enabled request else Inr False) of
                   Inl e \<Rightarrow> Inl e
                 | Inr True \<Rightarrow>
                     (let (p, evs) = start_process mqtthost (proc s) request new_pid
                      in Inr (Some (s\<lparr>proc := p\<rparr>), evs))
                 | Inr False \<Rightarrow>
                     if action = ''stop'' then
                       (let (po, evs) = stop_process mqtthost (proc s) job_exits
                        in Inr (map_option (\<lambda>p. s\<lparr>proc := p\<rparr>) po, evs))
                     else Inr (Some s, []))
              else if channel = ''daq'' then
                (if action = ''init''
                 then Inr (Some (s\<lparr>daq_init_queue := daq_init_queue s @ [request]\<rparr>), [])
                 else Inr (Some s, []))
              else Inr (Some s, [])))"

text \<open>
  One iteration of the \<open>while True\<close> loop of \<open>msg_handler\<close>: the bare \<open>except\<close> takes every
  exception of the block, logs at level 40 and keeps the state.
\<close>

definition invalid_payload_msg :: "string \<Rightarrow> string" where
  "invalid_payload_msg t = ''Invalid message payload on topic: '' @ t @ ''!''"

definition msg_handler_step ::
  "string \<Rightarrow> server \<Rightarrow> mqtt_msg \<Rightarrow> nat \<Rightarrow> bool \<Rightarrow> server option \<times> event list" where
  "msg_handler_step mqtthost s msg new_pid job_exits =
     (case msg_handler_try mqtthost s msg new_pid job_exits of
        Inl e \<Rightarrow>
          (Some s,
           [PublisherOpen mqtthost, Log (invalid_payload_msg (topic msg)) 40, PublisherClose])
      | Inr r \<Rightarrow> r)"

text \<open>
  The loop over the messages that arrive, each with what the environment decides at that
  moment (the child's pid, whether a signalled job exits). The loop ends only by blocking
  in \<open>stop_process\<close>; the result is the state after the given messages, if it got there,
  and all events.
\<close>

fun msg_handler :: "string \<Rightarrow> server \<Rightarrow> (mqtt_msg \<times> nat \<times> bool) list \<Rightarrow> server option \<times> event list" where
  "msg_handler mqtthost s [] = (Some s, [])"
| "msg_handler mqtthost s ((msg, new_pid, job_exits) # rest) =
     (case msg_handler_step mqtthost s msg new_pid job_exits of
        (None, evs) \<Rightarrow> (None, evs)
      | (Some s', evs) \<Rightarrow>
          (let (r, evs') = msg_handler mqtthost s' rest in (r, evs @ evs')))"

section \<open>The utility handler: \<open>filter_cmd\<close>, \<open>manager\<close> and the worker's dispatch\<close>

text \<open>
  \<open>isinstance(msg, collections.abc.Iterable)\<close>: strings, bytes, lists, tuples, sets and
  dictionaries.
\<close>

fun is_iterable :: "pyval \<Rightarrow> bool" where
  "is_iterable (PyStr s) = True"
| "is_iterable (PyBytes b) = True"
| "is_iterable (PyList xs) = True"
| "is_iterable (PyTuple xs) = True"
| "is_iterable (PySet xs) = True"
| "is_iterable (PyDict d) = True"
| "is_iterable v = False"

text \<open>Substring test, for \<open>'cmd' in msg\<close> on a string.\<close>

fun is_substring :: "string \<Rightarrow> string \<Rightarrow> bool" where
  "is_substring p [] = (p = [])"
| "is_substring p (x # xs) = (take (length p) (x # xs) = p \<or> is_substring p xs)"

text \<open>
  \<open>'cmd' in msg\<close>: a key of a dictionary, an element of a list, tuple or set, a substring
  of a string. On a bytes object the test of a str raises \<open>TypeError\<close>, as it does on a value
  that is not iterable.
\<close>

fun contains_cmd :: "pyval \<Rightarrow> exn + bool" where
  "contains_cmd (PyDict d) = Inr (''cmd'' \<in> set (map fst d))"
| "contains_cmd (PyList xs) = Inr (PyStr ''cmd'' \<in> set xs)"
| "contains_cmd (PyTuple xs) = Inr (PyStr ''cmd'' \<in> set xs)"
| "contains_cmd (PySet xs) = Inr (PyStr ''cmd'' \<in> set xs)"
| "contains_cmd (PyStr s) = Inr (is_substring ''cmd'' s)"
| "contains_cmd (PyBytes b) =
     Inl (Exception (''a bytes-like object is required, not '' @ quote ''str''))"
| "contains_cmd v = Inl (Exception ''TypeError'')"

text \<open>
  \<open>filter_cmd(mqtt_msg)\<close>. Only \<open>pickle.loads\<close> stands in the \<open>try\<close>; an exception of the
  membership test leaves the function.
\<close>

definition filter_cmd :: "mqtt_msg \<Rightarrow> exn + pyval" where
  "filter_cmd m =
     (let result = PyDict [(''cmd'', PyStr [])];
          msg = (case payload m of None \<Rightarrow> PyNone | Some v \<Rightarrow> v)
      in if is_iterable msg then
           (case contains_cmd msg of
              Inl e \<Rightarrow> Inl e
            | Inr True \<Rightarrow> Inr msg
            | Inr False \<Rightarrow> Inr result)
         else Inr result)"

text \<open>
  An f-string keeps its interpolated values as they are: \<open>Lit\<close> is literal text, \<open>Val\<close> a
  value to be formatted.
\<close>

datatype fpart = Lit string | Val pyval

text \<open>
  \<open>log_msg(msg, lvl)\<close> puts \<open>{'destination': 'status', 'payload': {'log': {'level': lvl,
  'text': msg}}}\<close> on the output queue.
\<close>

datatype out_msg = StatusLog nat "fpart list"

text \<open>
  The handler's queues. \<open>unfinished_tasks\<close> is the counter of \<open>taskq\<close>: \<open>put_nowait\<close> adds
  one, \<open>task_done\<close> takes one away.
\<close>

record handler =
  taskq :: "pyval list"
  unfinished_tasks :: int
  outputq :: "out_msg list"

definition log_msg :: "handler \<Rightarrow> fpart list \<Rightarrow> nat \<Rightarrow> handler" where
  "log_msg h msg lvl = h\<lparr>outputq := outputq h @ [StatusLog lvl msg]\<rparr>"

text \<open>\<open>v == True\<close> on a deserialised value.\<close>

definition eq_True :: "pyval \<Rightarrow> bool" where
  "eq_True v = (v = PyBool True \<or> v = PyInt 1)"

text \<open>
  One iteration of \<open>manager\<close> on a message from \<open>cmdq\<close>. \<open>pcb_ok virt address\<close> says whether
  opening the controller board and its query \<open>'b'\<close> go through without an exception. The
  result is \<open>Inl\<close> when the iteration raises, which ends the manager thread.
\<close>

definition manager_step :: "(bool \<Rightarrow> pyval \<Rightarrow> bool) \<Rightarrow> handler \<Rightarrow> mqtt_msg \<Rightarrow> exn + handler" where
  "manager_step pcb_ok h m =
     (case filter_cmd m of
        Inl e \<Rightarrow> Inl e
      | Inr cmd_msg \<Rightarrow>
          (let h1 = log_msg h [Lit ''New command message!''] DEBUG
           in case subscript cmd_msg ''cmd'' of
                Inl e \<Rightarrow> Inl e
              | Inr c \<Rightarrow>
                  if c = PyStr ''estop'' then
                    (case subscript cmd_msg ''pcb_virt'' of
                       Inl e \<Rightarrow> Inl e
                     | Inr v \<Rightarrow>
                         (case subscript cmd_msg ''pcb'' of
                            Inl e \<Rightarrow> Inr (log_msg h1 [Lit ''Unable to emergency stop.''] WARNING)
                          | Inr a \<Rightarrow>
                              if pcb_ok (eq_True v) a then
                                Inr (log_msg h1
                                  [Lit ''Emergency stop command issued. Re-Homing required before any further movements.'']
                                  INFO)
                              else Inr (log_msg h1 [Lit ''Unable to emergency stop.''] WARNING)))
                  else if unfinished_tasks h1 = 0 then
                    Inr (h1\<lparr>taskq := taskq h1 @ [cmd_msg],
                           unfinished_tasks := unfinished_tasks h1 + 1\<rparr>)
                  else if unfinished_tasks h1 > 0 then
                    Inr (log_msg h1
                      [Lit ''Backend busy (task queue size = '', Val (PyInt (unfinished_tasks h1)),
                       Lit ''). Command rejected.''] WARNING)
                  else
                    Inr (log_msg h1 [Lit ''Command message rejected:: '', Val cmd_msg] DEBUG)))"

text \<open>
  The commands the handler knows: \<open>estop\<close> in the manager and the branches of the worker.
  \<open>worker_branch\<close> is the worker's \<open>if\<close>/\<open>elif\<close> chain on \<open>task['cmd']\<close> together with the
  later \<open>check_health\<close> test; \<open>None\<close> means that no branch is taken.
\<close>

definition recognized_cmds :: "string list" where
  "recognized_cmds =
     [''estop'', ''home'', ''goto'', ''for_pcb'', ''read_stage'', ''mono_zero'', ''spec'',
      ''round_robin'', ''check_health'']"

definition worker_branch :: "pyval \<Rightarrow> string option" where
  "worker_branch c =
     (if c = PyStr ''home'' then Some ''home''
      else if c = PyStr ''goto'' then Some ''goto''
      else if c = PyStr ''for_pcb'' then Some ''for_pcb''
      else if c = PyStr ''read_stage'' then Some ''read_stage''
      else if c = PyStr ''mono_zero'' then Some ''mono_zero''
      else if c = PyStr ''spec'' then Some ''spec''
      else if c = PyStr ''round_robin'' then Some ''round_robin''
      else if c = PyStr ''check_health'' then Some ''check_health''
      else None)"

text \<open>
  One iteration of \<open>worker\<close> on the task at the head of \<open>taskq\<close> (with an empty queue
  \<open>get\<close> waits and nothing changes). For a command that matches no branch: the debug
  event, no instrument work, and \<open>task_done\<close>. For a task with a branch the instrument work
  is outside this model and the result is \<open>None\<close>.
\<close>

definition worker_step :: "handler \<Rightarrow> exn + handler option" where
  "worker_step h =
     (case taskq h of
        [] \<Rightarrow> Inr (Some h)
      | task # rest \<Rightarrow>
          (case subscript task ''cmd'' of
             Inl e \<Rightarrow> Inl e
           | Inr c \<Rightarrow>
               (let h1 = log_msg (h\<lparr>taskq := rest\<rparr>)
                           [Lit ''New task: '', Val c, Lit '' (queue size = '',
                            Val (PyInt (unfinished_tasks h)), Lit '')''] DEBUG
                in case worker_branch c of
                     Some b \<Rightarrow> Inr None
                   | None \<Rightarrow> Inr (Some (h1\<lparr>unfinished_tasks := unfinished_tasks h1 - 1\<rparr>)))))"


section \<open>The request and the pixel queue\<close>

text \<open>
  The parts of \<open>request["config"]\<close> and \<open>request["args"]\<close> that the job reads, as typed
  records: a request that reaches \<open>_run\<close> has passed the front end and holds every key.
  \<open>config["smu"][0][k]\<close> is \<open>smu_k\<close>, \<open>config["solarsim"][k]\<close> is \<open>solarsim_k\<close>,
  \<open>config["ccd"]["max_voltage"]\<close> is \<open>ccd_max_voltage\<close> and
  \<open>config["stage"]["experiment_positions"]\<close> is \<open>experiment_positions\<close>. Physical quantities
  are real numbers. \<open>IV_stuff\<close> and \<open>EQE_stuff\<close> are tables with one row per device, absent
  (\<open>None\<close>) when the key is not in \<open>args\<close>.
\<close>

record run_config =
  solarsim_address :: string
  solarsim_virtual :: bool
  smu_address :: string
  smu_port :: string
  smu_terminator :: string
  smu_plf :: real
  smu_two_wire :: bool
  smu_smart_compliance :: bool
  smu_current_limit :: real
  smu_channel_mapping :: "string list"
  ccd_max_voltage :: real
  experiment_positions :: "(string \<times> real list) list"

record stuff_row =
  row_label :: string
  row_device_label :: string
  row_layout :: string
  row_system_label :: string
  row_mux_index :: int
  row_sort_string :: string
  row_loc :: "real list"
  row_area :: real
  row_mux_string :: string

record run_args =
  enable_solarsim :: bool
  inverted_conn :: bool
  light_recipe :: string
  light_recipe_int :: real
  source_delay :: real
  cycles :: int
  jmax :: real
  imax :: real
  i_dwell :: real
  i_dwell_value :: real
  nplc :: real
  sweep_check :: bool
  lit_sweep :: int
  sweep_start :: real
  sweep_end :: real
  iv_steps :: real
  return_switch :: bool
  mppt_dwell :: real
  mppt_params :: string
  v_dwell :: real
  v_dwell_value :: real
  a_ovr_spin :: real
  IV_stuff :: "stuff_row list option"
  EQE_stuff :: "stuff_row list option"

record request =
  config :: run_config
  args :: run_args

text \<open>\<open>d[k] = v\<close> on an insertion-ordered dictionary.\<close>

fun dict_set :: "('k \<times> 'v) list \<Rightarrow> 'k \<Rightarrow> 'v \<Rightarrow> ('k \<times> 'v) list" where
  "dict_set [] k v = [(k, v)]"
| "dict_set ((k', v') # d) k v = (if k' = k then (k, v) # d else (k', v') # dict_set d k v)"

text \<open>\<open>str.lower()\<close> on ASCII letters, \<open>list.index\<close>, and \<open>int(x)\<close> on a number.\<close>

fun index_of :: "'a list \<Rightarrow> 'a \<Rightarrow> nat option" where
  "index_of [] x = None"
| "index_of (y # ys) x = (if y = x then Some 0 else map_option Suc (index_of ys x))"

definition lower_char :: "char \<Rightarrow> char" where
  "lower_char c =
     (case index_of ''ABCDEFGHIJKLMNOPQRSTUVWXYZ'' c of
        None \<Rightarrow> c
      | Some i \<Rightarrow> ''abcdefghijklmnopqrstuvwxyz'' ! i)"

definition lower :: "string \<Rightarrow> string" where
  "lower s = map lower_char s"

definition py_int :: "real \<Rightarrow> int" where
  "py_int x = (if 0 \<le> x then \<lfloor>x\<rfloor> else \<lceil>x\<rceil>)"

text \<open>
  The body of the \<open>for\<close> loop of \<open>_build_q\<close> for one row, and the loop. The text of the
  \<open>ValueError\<close> of \<open>list.index\<close> and of a \<open>KeyError\<close> is \<open>str(e)\<close>, as \<open>_run\<close> logs it.
\<close>

definition build_pixel :: "request \<Rightarrow> real list \<Rightarrow> stuff_row \<Rightarrow> exn + nat \<times> pixel_dict" where
  "build_pixel req center things =
     (let pixel_dict =
            \<lparr>label = row_label things,
             device_label = row_device_label things,
             layout = row_layout things,
             sub_name = row_system_label things,
             pixel = row_mux_index things,
             sort_string = row_sort_string things,
             pos = map (\<lambda>(a, b). a + b) (zip center (row_loc things)),
             area = (if row_area things = - 1 then a_ovr_spin (args req) else row_area things),
             mux_string = row_mux_string things\<rparr>;
          mapping = map lower (smu_channel_mapping (config req))
      in case index_of mapping (lower (row_sort_string things)) of
           None \<Rightarrow> Inl (Exception (quote (lower (row_sort_string things)) @ '' is not in list''))
         | Some smu_chan \<Rightarrow> Inr (smu_chan, pixel_dict))"

fun build_rows :: "request \<Rightarrow> real list \<Rightarrow> stuff_row list \<Rightarrow> pixels \<Rightarrow> exn + pixels" where
  "build_rows req center [] pixel_d = Inr pixel_d"
| "build_rows req center (things # rest) pixel_d =
     (case build_pixel req center things of
        Inl e \<Rightarrow> Inl e
      | Inr (smu_chan, pixel_dict) \<Rightarrow> build_rows req center rest (dict_set pixel_d smu_chan pixel_dict))"

definition build_q :: "request \<Rightarrow> string \<Rightarrow> exn + pixels" where
  "build_q req experiment =
     (case (if experiment = ''solarsim'' then
              (case IV_stuff (args req) of
                 None \<Rightarrow> Inl (Exception (quote ''IV_stuff''))
               | Some stuff \<Rightarrow> Inr stuff)
            else if experiment = ''eqe'' then
              (case EQE_stuff (args req) of
                 None \<Rightarrow> Inl (Exception (quote ''EQE_stuff''))
               | Some stuff \<Rightarrow> Inr stuff)
            else Inl (Exception (''Unknown experiment: '' @ experiment))) of
        Inl e \<Rightarrow> Inl e
      | Inr stuff \<Rightarrow>
          (case map_of (experiment_positions (config req)) experiment of
             None \<Rightarrow> Inl (Exception (quote experiment))
           | Some center \<Rightarrow> build_rows req center stuff []))"

section \<open>The job process\<close>

text \<open>
  The instruments behind the measurement object, as the job sees them: a state \<open>'w\<close> and,
  for each use, what it answers (a value or an exception) and the next state.
  \<open>has_le\<close> is \<open>hasattr(measurement, "le")\<close>; \<open>unit_call\<close> answers the uses without a result;
  \<open>track_max_power\<close> also gives the pixel dictionary as the call leaves it, since it
  prunes devices in place; \<open>time_now\<close> is \<open>time.time()\<close>.
\<close>

record 'w env =
  has_le :: "'w \<Rightarrow> bool"
  unit_call :: "mcall \<Rightarrow> 'w \<Rightarrow> (exn + unit) \<times> 'w"
  compliance_current_guess :: "mcall \<Rightarrow> 'w \<Rightarrow> (exn + real) \<times> 'w"
  steady_state :: "mcall \<Rightarrow> pixels \<Rightarrow> 'w \<Rightarrow> (exn + data) \<times> 'w"
  sweep :: "mcall \<Rightarrow> pixels \<Rightarrow> 'w \<Rightarrow> (exn + data \<times> vocs) \<times> 'w"
  track_max_power ::
    "mcall \<Rightarrow> pixels \<Rightarrow> 'w \<Rightarrow> (exn + (data list \<times> data list) \<times> pixels) \<times> 'w"
  measure_spectrum :: "'w \<Rightarrow> (exn + real list) \<times> 'w"
  time_now :: "'w \<Rightarrow> real"

text \<open>
  The state of a job: the instruments and the events so far. A step of the job gives a
  value or an exception and the next state, or nothing at all when it never returns.
\<close>

record 'w jstate =
  world :: 'w
  trace :: "event list"

type_synonym ('w, 'a) job = "'w jstate \<Rightarrow> ((exn + 'a) \<times> 'w jstate) option"

definition returnE :: "'a \<Rightarrow> ('w, 'a) job" where
  "returnE x s = Some (Inr x, s)"

definition raiseE :: "exn \<Rightarrow> ('w, 'a) job" where
  "raiseE e s = Some (Inl e, s)"

definition liftE :: "exn + 'a \<Rightarrow> ('w, 'a) job" where
  "liftE r s = Some (r, s)"

definition bindE :: "('w, 'a) job \<Rightarrow> ('a \<Rightarrow> ('w, 'b) job) \<Rightarrow> ('w, 'b) job" where
  "bindE m f s =
     (case m s of
        None \<Rightarrow> None
      | Some (Inl e, s') \<Rightarrow> Some (Inl e, s')
      | Some (Inr x, s') \<Rightarrow> f x s')"

fun seqE :: "('w, unit) job list \<Rightarrow> ('w, unit) job" where
  "seqE [] = returnE ()"
| "seqE (m # ms) = bindE m (\<lambda>_. seqE ms)"

definition whenE :: "bool \<Rightarrow> ('w, unit) job \<Rightarrow> ('w, unit) job" where
  "whenE b m = (if b then m else returnE ())"

text \<open>\<open>try: m except e: h e\<close>.\<close>

definition catch :: "('w, 'a) job \<Rightarrow> (exn \<Rightarrow> ('w, 'a) job) \<Rightarrow> ('w, 'a) job" where
  "catch m h s =
     (case m s of
        None \<Rightarrow> None
      | Some (Inl e, s') \<Rightarrow> h e s'
      | Some (Inr x, s') \<Rightarrow> Some (Inr x, s'))"

definition emits :: "event list \<Rightarrow> ('w, unit) job" where
  "emits evs s = Some (Inr (), s\<lparr>trace := trace s @ evs\<rparr>)"

definition emit :: "event \<Rightarrow> ('w, unit) job" where
  "emit ev = emits [ev]"

text \<open>A use of the measurement object: the event, then what the instruments answer.\<close>

definition ext :: "('w \<Rightarrow> (exn + 'a) \<times> 'w) \<Rightarrow> mcall \<Rightarrow> ('w, 'a) job" where
  "ext f c s =
     (case f (world s) of (r, w) \<Rightarrow> Some (r, \<lparr>world = w, trace = trace s @ [Call c]\<rparr>))"

definition call :: "'w env \<Rightarrow> mcall \<Rightarrow> ('w, unit) job" where
  "call env c = ext (unit_call env c) c"

text \<open>\<open>if hasattr(measurement, "le"): m\<close>.\<close>

definition when_le :: "'w env \<Rightarrow> ('w, unit) job \<Rightarrow> ('w, unit) job" where
  "when_le env m s = (if has_le env (world s) then m s else returnE () s)"

text \<open>\<open>time.time()\<close>.\<close>

definition time_time :: "'w env \<Rightarrow> ('w, real) job" where
  "time_time env s = Some (Inr (time_now env (world s)), s)"

text \<open>
  Modelled from the spec: \<open>fabric\<close> is imported from a module that is not among the
  sources. Its context manager is entered, and left on every exit path of the block; an
  exception of the block passes through it (4.4: scoped release on every exit path).
\<close>

definition with_fabric :: "'w env \<Rightarrow> ('w, 'a) job \<Rightarrow> ('w, 'a) job" where
  "with_fabric env body =
     bindE (call env FabricEnter)
       (\<lambda>_ s. case body s of
                 None \<Rightarrow> None
               | Some (r, s') \<Rightarrow>
                   (case call env FabricExit s' of
                      None \<Rightarrow> None
                    | Some (Inl e, s'') \<Rightarrow> Some (Inl e, s'')
                    | Some (Inr u, s'') \<Rightarrow> Some (r, s'')))"

text \<open>\<open>_log(msg, level, mqttc)\<close> and \<open>_clear_plot(kind, mqttqp)\<close>.\<close>

definition fabric_log :: "string \<Rightarrow> nat \<Rightarrow> ('w, unit) job" where
  "fabric_log msg level = emit (Log msg level)"

definition clear_plot :: "string \<Rightarrow> ('w, unit) job" where
  "clear_plot kind = emit (Append (''plotter/'' @ kind @ ''/clear'') (PStr []) False)"

text \<open>
  \<open>DataHandler.handle_data\<close> for a handler with the given \<open>kind\<close>, \<open>pixels\<close> and \<open>sweep\<close>:
  the channels in order, those without a pixel skipped.
\<close>

definition handle_data :: "string \<Rightarrow> pixels \<Rightarrow> string \<Rightarrow> data \<Rightarrow> event list" where
  "handle_data kind pix sw d =
     concat (map (\<lambda>(channel, ch_data).
                    case map_of pix channel of
                      None \<Rightarrow> []
                    | Some p \<Rightarrow> [Append (''data/raw/'' @ kind) (PData ch_data p sw) False])
                 (sort_key fst d))"

text \<open>Decimal digits of the loop counter, for \<open>f"### Loop {loop} ###"\<close>.\<close>

fun str_nat :: "nat \<Rightarrow> string" where
  "str_nat n =
     (if n < 10 then [''0123456789'' ! n]
      else str_nat (n div 10) @ [''0123456789'' ! (n mod 10)])"

declare str_nat.simps [simp del]

text \<open>\<open>[val["device_label"] for key, val in pixels.items()]\<close>.\<close>

definition labels :: "pixels \<Rightarrow> string list" where
  "labels pix = map (\<lambda>(key, val). device_label val) pix"

subsection \<open>\<open>_ivt\<close>: set-up\<close>

definition ivt_setup :: "'w env \<Rightarrow> request \<Rightarrow> pixels \<Rightarrow> ('w, unit) job" where
  "ivt_setup env req pix =
     (let cfg = config req; a = args req;
          light_address = (if enable_solarsim a = True then Some (solarsim_address cfg) else None)
      in seqE
           [call env SetMqttc,
            call env (ConnectInstruments (smu_address cfg) (smu_port cfg) (smu_terminator cfg)
                        (smu_plf cfg) (smu_two_wire cfg) (inverted_conn a) light_address
                        (solarsim_virtual cfg) (light_recipe a)),
            when_le env (call env (LeSetIntensity (py_int (light_recipe_int a)))),
            emit (Append ''daq/start'' (PStr []) False),
            emit (Append ''plotter/live_devices'' (PLabels (labels pix)) True)])"

subsection \<open>\<open>_ivt\<close>: the phases of one cycle\<close>

text \<open>\<open>list(pixels.values())[0]["area"]\<close>.\<close>

definition first_area :: "pixels \<Rightarrow> exn + real" where
  "first_area pix =
     (case pix of [] \<Rightarrow> Inl (Exception ''list index out of range'') | (k, p) # r \<Rightarrow> Inr (area p))"

text \<open>\<open>for ch, ch_data in sorted(vt.items()): ssvocs[ch] = ch_data[-1][0]\<close>.\<close>

fun last_voltages :: "data \<Rightarrow> vocs \<Rightarrow> exn + vocs" where
  "last_voltages [] ssvocs = Inr ssvocs"
| "last_voltages ((ch, ch_data) # rest) ssvocs =
     (if ch_data = [] then Inl (Exception ''list index out of range'')
      else if last ch_data = [] then Inl (Exception ''list index out of range'')
      else last_voltages rest (dict_set ssvocs ch (hd (last ch_data))))"

text \<open>The steady-state Voc dwell; its value is \<open>ssvocs\<close>.\<close>

definition steady_state_voc :: "'w env \<Rightarrow> request \<Rightarrow> real \<Rightarrow> pixels \<Rightarrow> ('w, vocs option) job" where
  "steady_state_voc env req settling_delay pix =
     (let a = args req;
          c = SteadyState (i_dwell a) (nplc a) settling_delay False (i_dwell_value a)
      in if i_dwell a > 0 then
           bindE (seqE [fabric_log ''Measuring steady-state Voc'' 20,
                        when_le env (call env LeOn),
                        clear_plot ''vt_measurement''])
             (\<lambda>_. bindE (ext (steady_state env c pix) c)
                (\<lambda>vt. if i_dwell_value a = 0
                      then bindE (liftE (last_voltages (sort_key fst vt) []))
                             (\<lambda>ssvocs. returnE (Some ssvocs))
                      else returnE None))
         else returnE None)"

text \<open>The sweep list of a cycle (the variable \<open>sweeps\<close>).\<close>

definition sweeps_of :: "run_args \<Rightarrow> string list" where
  "sweeps_of a =
     (if sweep_check a = True then
        (if lit_sweep a = 0 then [''dark'', ''light'']
         else if lit_sweep a = 1 then [''light'', ''dark'']
         else if lit_sweep a = 2 then [''dark'']
         else if lit_sweep a = 3 then [''light'']
         else [])
      else [])"

text \<open>
  The body of \<open>for sweep in sweeps\<close>. It carries \<open>iv1_vocs\<close> (unbound, \<open>None\<close>, until a
  first sweep has run) and the \<open>sweep\<close> field of the data handler.
\<close>

definition one_sweep ::
  "'w env \<Rightarrow> request \<Rightarrow> real \<Rightarrow> pixels \<Rightarrow> string \<Rightarrow> vocs option \<times> string
   \<Rightarrow> ('w, vocs option \<times> string) job" where
  "one_sweep env req settling_delay pix sw st =
     (let a = args req; cfg = config req;
          c1 = Sweep (nplc a) settling_delay (sweep_start a) (sweep_end a) (py_int (iv_steps a))
                 True (smu_smart_compliance cfg) None
      in bindE (if sw = ''dark'' then when_le env (call env LeOff)
                else when_le env (call env LeOn))
           (\<lambda>_. bindE
              (if sweep_check a = True then
                 bindE (seqE [fabric_log (''Performing first '' @ sw @ '' sweep.'') 20,
                              clear_plot ''iv_measurement''])
                   (\<lambda>_. bindE (ext (sweep env c1 pix) c1)
                      (\<lambda>(iv1, iv1_vocs).
                         bindE (call env (RegisterCurve iv1 (sw = ''light'')))
                           (\<lambda>_. returnE (Some iv1_vocs, sw))))
               else returnE st)
              (\<lambda>(vo, dh_sweep).
                 if return_switch a = True then
                   bindE (fabric_log (''Performing second '' @ sw @ '' sweep.'') 20)
                     (\<lambda>_. case vo of
                             None \<Rightarrow> raiseE (Exception ''UnboundLocalError'')
                           | Some iv1_vocs \<Rightarrow>
                               (let c2 = Sweep (nplc a) settling_delay (sweep_end a) (sweep_start a)
                                           (py_int (iv_steps a)) True (smu_smart_compliance cfg)
                                           (Some iv1_vocs)
                                in bindE (ext (sweep env c2 pix) c2)
                                     (\<lambda>(iv2, iv2_vocs).
                                        bindE (call env (RegisterCurve iv2 (sw = ''light'')))
                                          (\<lambda>_. returnE (vo, sw)))))
                 else returnE (vo, dh_sweep))))"

fun run_sweeps ::
  "'w env \<Rightarrow> request \<Rightarrow> real \<Rightarrow> pixels \<Rightarrow> string list \<Rightarrow> vocs option \<times> string
   \<Rightarrow> ('w, vocs option \<times> string) job" where
  "run_sweeps env req settling_delay pix [] st = returnE st"
| "run_sweeps env req settling_delay pix (sw # rest) st =
     bindE (one_sweep env req settling_delay pix sw st)
       (run_sweeps env req settling_delay pix rest)"

text \<open>How a phase leaves the \<open>while\<close> loop: on to the next statement, or by \<open>break\<close>.\<close>

datatype flow = Continue | Break

text \<open>
  The max-power tracking phase. \<open>mppt_open\<close> is its statements before the call of the
  tracker; \<open>track_call\<close> is that call. The value of the phase is how the loop goes on,
  the pixel dictionary as the tracker left it, and the label queue \<open>ld\<close>.
\<close>

definition mppt_open :: "'w env \<Rightarrow> vocs option \<Rightarrow> ('w, unit) job" where
  "mppt_open env ssvocs =
     seqE [when_le env (call env LeOn),
           fabric_log ''Performing max. power tracking.'' 20,
           clear_plot ''mppt_measurement'',
           (case ssvocs of None \<Rightarrow> returnE () | Some v \<Rightarrow> call env (SetMpptVoc v))]"

definition track_call :: "request \<Rightarrow> real \<Rightarrow> mcall" where
  "track_call req compliance_i =
     TrackMaxPower (mppt_dwell (args req)) (nplc (args req)) (mppt_params (args req))
       (ccd_max_voltage (config req)) compliance_i"

definition max_power_tracking ::
  "'w env \<Rightarrow> request \<Rightarrow> real \<Rightarrow> vocs option \<Rightarrow> pixels \<Rightarrow> string list \<Rightarrow> string
   \<Rightarrow> ('w, flow \<times> pixels \<times> string list) job" where
  "max_power_tracking env req compliance_i ssvocs pix ld dh_sweep =
     (let c = track_call req compliance_i
      in if mppt_dwell (args req) > 0 then
           bindE (mppt_open env ssvocs)
             (\<lambda>_. let pre_mppt_pix = length pix
                   in bindE (ext (track_max_power env c pix) c)
                        (\<lambda>((mt, vt), pix').
                           let post_mppt_pix = length pix';
                               tracked = (\<lambda>ld'.
                                 bindE (whenE (length vt > 0)
                                          (emits (concat (map (handle_data ''vtmppt_measurement''
                                                                 pix' dh_sweep) vt))))
                                   (\<lambda>_. returnE (Continue, pix', ld')))
                           in if pre_mppt_pix \<noteq> post_mppt_pix then
                                (if post_mppt_pix = 0 then
                                   bindE (seqE [fabric_log ''No devices left to measure.'' 30,
                                                emit (Append ''plotter/live_devices'' (PLabels []) True)])
                                     (\<lambda>_. returnE (Break, pix', ld))
                                 else
                                   bindE (emit (Append ''plotter/live_devices''
                                                  (PLabels (labels pix')) True))
                                     (\<lambda>_. tracked (labels pix')))
                              else tracked ld))
         else returnE (Continue, pix, ld))"

text \<open>The steady-state Jsc dwell.\<close>

definition steady_state_jsc :: "'w env \<Rightarrow> request \<Rightarrow> real \<Rightarrow> pixels \<Rightarrow> ('w, unit) job" where
  "steady_state_jsc env req settling_delay pix =
     (let a = args req;
          c = SteadyState (v_dwell a) (nplc a) settling_delay True (v_dwell_value a)
      in if v_dwell a > 0 then
           bindE (seqE [when_le env (call env LeOn),
                        fabric_log ''Measuring current at constant voltage.'' 20,
                        clear_plot ''it_measurement''])
             (\<lambda>_. bindE (ext (steady_state env c pix) c) (\<lambda>it. returnE ()))
         else returnE ())"

subsection \<open>\<open>_ivt\<close>: the loop over the cycles and the teardown\<close>

text \<open>The variables of \<open>_ivt\<close> that live across cycles.\<close>

record ivt_vars =
  v_pixels :: pixels
  v_ld :: "string list"
  v_iv1_vocs :: "vocs option"

text \<open>
  The body of the \<open>while\<close> loop, with \<open>loop\<close> already counted up, in three parts:
  \<open>cycle_head\<close> is the statements before the tracking phase (the loop banner, the
  compliance current, the Voc dwell and the sweeps), with the values the rest needs;
  \<open>cycle_tail\<close> is the statements after it (the Jsc dwell and the closing log).
\<close>

definition cycle_head ::
  "'w env \<Rightarrow> request \<Rightarrow> real \<Rightarrow> nat \<Rightarrow> ivt_vars
   \<Rightarrow> ('w, real \<times> vocs option \<times> vocs option \<times> string) job" where
  "cycle_head env req settling_delay loop vars =
     (let a = args req; pix = v_pixels vars
      in bindE (fabric_log (''### Loop '' @ str_nat loop @ '' ###'') 20)
        (\<lambda>_. bindE (liftE (first_area pix))
        (\<lambda>ar. let g = ComplianceCurrentGuess ar (jmax a) (imax a)
              in bindE (ext (compliance_current_guess env g) g)
        (\<lambda>compliance_i. bindE (call env (SetMpptCurrentCompliance compliance_i))
        (\<lambda>_. bindE (steady_state_voc env req settling_delay pix)
        (\<lambda>ssvocs. bindE (run_sweeps env req settling_delay pix (sweeps_of a) (v_iv1_vocs vars, []))
        (\<lambda>(vo, dh_sweep). returnE (compliance_i, ssvocs, vo, dh_sweep))))))))"

definition cycle_tail :: "'w env \<Rightarrow> request \<Rightarrow> real \<Rightarrow> ivt_vars \<Rightarrow> ('w, flow \<times> ivt_vars) job" where
  "cycle_tail env req settling_delay vars' =
     bindE (steady_state_jsc env req settling_delay (v_pixels vars'))
       (\<lambda>_. bindE (fabric_log [] 20)
       (\<lambda>_. returnE (Continue, vars')))"

definition cycle ::
  "'w env \<Rightarrow> request \<Rightarrow> real \<Rightarrow> nat \<Rightarrow> ivt_vars \<Rightarrow> ('w, flow \<times> ivt_vars) job" where
  "cycle env req settling_delay loop vars =
     bindE (cycle_head env req settling_delay loop vars)
       (\<lambda>(compliance_i, ssvocs, vo, dh_sweep).
          bindE (max_power_tracking env req compliance_i ssvocs (v_pixels vars) (v_ld vars) dh_sweep)
       (\<lambda>(fl, pix', ld').
          let vars' = \<lparr>v_pixels = pix', v_ld = ld', v_iv1_vocs = vo\<rparr>
          in if fl = Break then returnE (Break, vars')
             else cycle_tail env req settling_delay vars'))"

text \<open>
  \<open>while (loop < args["cycles"]) or (args["cycles"] == 0)\<close>. With \<open>cycles = 0\<close> the loop
  goes on until a phase breaks or raises; \<open>fuel\<close> bounds the cycles looked at, and the
  result is \<open>None\<close> when they do not suffice.
\<close>

fun ivt_loop ::
  "nat \<Rightarrow> 'w env \<Rightarrow> request \<Rightarrow> real \<Rightarrow> nat \<Rightarrow> ivt_vars \<Rightarrow> ('w, ivt_vars) job" where
  "ivt_loop 0 env req settling_delay loop vars s =
     (if int loop < cycles (args req) \<or> cycles (args req) = 0 then None
      else Some (Inr vars, s))"
| "ivt_loop (Suc fuel) env req settling_delay loop vars s =
     (if int loop < cycles (args req) \<or> cycles (args req) = 0 then
        (case cycle env req settling_delay (loop + 1) vars s of
           None \<Rightarrow> None
         | Some (Inl e, s') \<Rightarrow> Some (Inl e, s')
         | Some (Inr (Break, vars'), s') \<Rightarrow> Some (Inr vars', s')
         | Some (Inr (Continue, vars'), s') \<Rightarrow>
             ivt_loop fuel env req settling_delay (loop + 1) vars' s')
      else Some (Inr vars, s))"

text \<open>The statements after the loop: \<open>ld.clear()\<close> and what follows.\<close>

definition ivt_teardown :: "'w env \<Rightarrow> ('w, unit) job" where
  "ivt_teardown env =
     seqE [emit (Append ''plotter/live_devices'' (PLabels []) True),
           call env (SmEnableOutput False),
           when_le env (call env LeOff),
           emit (Append ''daq/stop'' (PStr []) False)]"

definition ivt :: "nat \<Rightarrow> 'w env \<Rightarrow> request \<Rightarrow> pixels \<Rightarrow> ('w, unit) job" where
  "ivt fuel env req pix =
     bindE (ivt_setup env req pix)
       (\<lambda>_. bindE (ivt_loop fuel env req (source_delay (args req) / 1000) 0
                     \<lparr>v_pixels = pix, v_ld = labels pix, v_iv1_vocs = None\<rparr>)
       (\<lambda>vars. ivt_teardown env))"

subsection \<open>\<open>_calibrate_spectrum\<close> and \<open>_run\<close>\<close>

definition calibrate_spectrum :: "'w env \<Rightarrow> request \<Rightarrow> string \<Rightarrow> ('w, bool) job" where
  "calibrate_spectrum env req mqtthost =
     (let cfg = config req; a = args req
      in bindE (emit (PublisherOpen mqtthost))
        (\<lambda>_. bindE
           (catch
              (bindE
                 (with_fabric env
                    (bindE (seqE [call env (SetCurrentLimit (smu_current_limit cfg)),
                                  fabric_log ''Calibrating solar simulator spectrum...'' 20,
                                  call env (ConnectLight (solarsim_address cfg) (solarsim_virtual cfg)
                                              (light_recipe a)),
                                  when_le env (call env (LeSetIntensity (py_int (light_recipe_int a))))])
                       (\<lambda>_. bindE (time_time env)
                          (\<lambda>timestamp. bindE (ext (measure_spectrum env) MeasureSpectrum)
                          (\<lambda>spectrum.
                             seqE [emit (Append ''calibration/spectrum''
                                           (PSpectrum spectrum timestamp) True),
                                   fabric_log ''Finished calibrating solar simulator spectrum!''
                                     20])))))
                 (\<lambda>_. returnE False))
              (\<lambda>e. case e of
                     KeyboardInterrupt \<Rightarrow> returnE True
                   | Exception m \<Rightarrow>
                       bindE (fabric_log (''SPECTRUM CALIBRATION ABORTED! '' @ m) 40)
                         (\<lambda>_. returnE False)))
           (\<lambda>user_aborted.
              bindE (seqE [emit (Append ''measurement/status'' (PStr ''Ready'') True),
                           emit PublisherClose])
                (\<lambda>_. returnE user_aborted))))"

text \<open>
  The DAQ readiness check. \<open>daq_reply\<close> is what \<open>daq_init_queue.get(timeout=30)\<close> gives:
  the message, or \<open>None\<close> when the 30 seconds pass and \<open>queue.Empty\<close> is raised. The value
  is \<open>user_aborted\<close>.
\<close>

definition daq_check :: "string \<Rightarrow> pyval option \<Rightarrow> ('w, bool) job" where
  "daq_check mqtthost daq_reply =
     bindE (seqE [emit (PublisherOpen mqtthost),
                  fabric_log ''Checking DAQ status...'' 20,
                  emit PublisherClose])
       (\<lambda>_. returnE
               (case daq_reply of
                  None \<Rightarrow> True
                | Some daq_init_msg \<Rightarrow>
                    (case subscript daq_init_msg ''init_success'' of
                       Inl e \<Rightarrow> True
                     | Inr v \<Rightarrow> v = PyBool False)))"

text \<open>The block \<open>with fabric() as measurement\<close> of \<open>_run\<close>.\<close>

definition run_body :: "nat \<Rightarrow> 'w env \<Rightarrow> request \<Rightarrow> ('w, unit) job" where
  "run_body fuel env req =
     with_fabric env
       (seqE [fabric_log ''Starting run...'' 20,
              call env (SetCurrentLimit (smu_current_limit (config req))),
              (if IV_stuff (args req) \<noteq> None then
                 bindE (liftE (build_q req ''solarsim''))
                   (\<lambda>q. seqE [ivt fuel env req q, call env DisconnectAllInstruments])
               else returnE ()),
              fabric_log ''Run complete!'' 20])"

text \<open>
  \<open>_run\<close> in three parts. \<open>run_checks\<close> is the spectrum calibration, if asked for, and the
  readiness check; its value is \<open>user_aborted\<close>. \<open>run_job\<close> is the block that runs the
  measurement inside the queue publisher, with the two \<open>except\<close> clauses. The last
  statement appends the status after either publisher block has been left.
\<close>

definition run_checks :: "'w env \<Rightarrow> request \<Rightarrow> string \<Rightarrow> pyval option \<Rightarrow> ('w, bool) job" where
  "run_checks env req mqtthost daq_reply =
     bindE (if IV_stuff (args req) \<noteq> None \<and> enable_solarsim (args req) = True
            then calibrate_spectrum env req mqtthost
            else returnE False)
       (\<lambda>user_aborted. if user_aborted = False then daq_check mqtthost daq_reply
                       else returnE user_aborted)"

definition run_job :: "nat \<Rightarrow> 'w env \<Rightarrow> request \<Rightarrow> string \<Rightarrow> ('w, unit) job" where
  "run_job fuel env req mqtthost =
     seqE [emit (PublisherOpen mqtthost),
           catch (run_body fuel env req)
             (\<lambda>e. case e of
                    KeyboardInterrupt \<Rightarrow> returnE ()
                  | Exception m \<Rightarrow> fabric_log (''RUN ABORTED! '' @ m) 40),
           emit PublisherClose]"

definition run :: "nat \<Rightarrow> 'w env \<Rightarrow> request \<Rightarrow> string \<Rightarrow> pyval option \<Rightarrow> ('w, unit) job" where
  "run fuel env req mqtthost daq_reply =
     bindE (run_checks env req mqtthost daq_reply)
       (\<lambda>user_aborted.
          bindE (if user_aborted = False then run_job fuel env req mqtthost
                 else
                   seqE [emit (PublisherOpen mqtthost),
                         fabric_log ''RUN ABORTED!'' 40,
                         emit PublisherClose])
       (\<lambda>_. emit (Append ''measurement/status'' (PStr ''Ready'') True)))"

subsection \<open>Simulated instruments\<close>

text \<open>
  Instruments without state, in the manner of the repository's virtual ones: every use
  goes through; a dwell and a sweep give one row of zeros per pixel, unless \<open>fault\<close> is set,
  in which case the dwell raises it; the tracker leaves the pixels \<open>prune\<close> keeps.
\<close>

definition sim_env :: "bool \<Rightarrow> exn option \<Rightarrow> (pixels \<Rightarrow> pixels) \<Rightarrow> unit env" where
  "sim_env le fault prune =
     \<lparr>has_le = (\<lambda>w. le),
      unit_call = (\<lambda>c w. (Inr (), w)),
      compliance_current_guess = (\<lambda>c w. (Inr (1 / 10), w)),
      steady_state = (\<lambda>c pix w.
         (case fault of
            Some e \<Rightarrow> (Inl e, w)
          | None \<Rightarrow> (Inr (map (\<lambda>(ch, p). (ch, [[0, 0, 0, 0]])) pix), w))),
      sweep = (\<lambda>c pix w. (Inr (map (\<lambda>(ch, p). (ch, [[0, 0, 0, 0]])) pix, []), w)),
      track_max_power = (\<lambda>c pix w. (Inr (([], []), prune pix), w)),
      measure_spectrum = (\<lambda>w. (Inr [], w)),
      time_now = (\<lambda>w. 0)\<rparr>"

text \<open>A request for one cycle of a 10 s Voc dwell on one device, and two pixels.\<close>

definition sim_config :: run_config where
  "sim_config =
     \<lparr>solarsim_address = ''wavelabs://0.0.0.0:3334'', solarsim_virtual = True,
      smu_address = ''ASRL/dev/ttyS0::INSTR'', smu_port = ''0'', smu_terminator = ''CR'',
      smu_plf = 50, smu_two_wire = True, smu_smart_compliance = False, smu_current_limit = 1 / 10,
      smu_channel_mapping = [''A1'', ''B1''], ccd_max_voltage = 3,
      experiment_positions = [(''solarsim'', [0])]\<rparr>"

definition sim_rows :: "stuff_row list" where
  "sim_rows =
     [\<lparr>row_label = ''s1'', row_device_label = ''s1_a1'', row_layout = ''L'',
       row_system_label = ''A'', row_mux_index = 1, row_sort_string = ''a1'', row_loc = [0],
       row_area = 1, row_mux_string = ''s10001''\<rparr>]"

definition sim_args :: run_args where
  "sim_args =
     \<lparr>enable_solarsim = False, inverted_conn = False, light_recipe = ''AM1.5'',
      light_recipe_int = 100, source_delay = 3, cycles = 1, jmax = 50, imax = 1 / 20,
      i_dwell = 10, i_dwell_value = 0, nplc = 1, sweep_check = False, lit_sweep = 0,
      sweep_start = 1, sweep_end = 0, iv_steps = 101, return_switch = False,
      mppt_dwell = 0, mppt_params = ''basic://'', v_dwell = 0, v_dwell_value = 0,
      a_ovr_spin = 1, IV_stuff = Some sim_rows, EQE_stuff = None\<rparr>"

definition sim_request :: request where
  "sim_request = \<lparr>config = sim_config, args = sim_args\<rparr>"

definition sim_pixel :: pixel_dict where
  "sim_pixel =
     \<lparr>label = ''s1'', device_label = ''s1_a1'', layout = ''L'', sub_name = ''A'', pixel = 1,
      sort_string = ''a1'', pos = [0], area = 1, mux_string = ''s10001''\<rparr>"

definition sim_pixel_b :: pixel_dict where
  "sim_pixel_b =
     \<lparr>label = ''s2'', device_label = ''s2_b1'', layout = ''L'', sub_name = ''B'', pixel = 1,
      sort_string = ''b1'', pos = [0], area = 1, mux_string = ''s20001''\<rparr>"

definition sim_start :: "unit jstate" where
  "sim_start = \<lparr>world = (), trace = []\<rparr>"

section \<open>Reasoning about traces\<close>

text \<open>
  A job \<open>appends P\<close> when, however it ends, the trace after it is the trace before it
  followed by events that all satisfy \<open>P\<close>.
\<close>

definition appends :: "(event \<Rightarrow> bool) \<Rightarrow> ('w, 'a) job \<Rightarrow> bool" where
  "appends P m =
     (\<forall>s r s'. m s = Some (r, s') \<longrightarrow> (\<exists>evs. trace s' = trace s @ evs \<and> list_all P evs))"

text \<open>The publications of the live-device list, and the events only the teardown makes.\<close>

fun is_live :: "event \<Rightarrow> bool" where
  "is_live (Append t p r) = (t = ''plotter/live_devices'')"
| "is_live e = False"

fun is_teardown :: "event \<Rightarrow> bool" where
  "is_teardown (Call (SmEnableOutput b)) = True"
| "is_teardown (Append t p r) = (t = ''daq/stop'')"
| "is_teardown e = False"

text \<open>Events that neither publish the live-device list nor belong to the teardown.\<close>

definition quiet :: "event \<Rightarrow> bool" where
  "quiet e = (\<not> is_live e \<and> \<not> is_teardown e)"

text \<open>A job \<open>returns\<close> when it ends from every state, with a value or an exception.\<close>

definition returns :: "('w, 'a) job \<Rightarrow> bool" where
  "returns m = (\<forall>s. m s \<noteq> None)"

section \<open>Properties of the admission controller\<close>

lemma split_on_not_Nil: "split_on c s \<noteq> []"
  by (induction s) (auto split: list.splits)

lemma split_on_measurement_run:
  "split_on (CHR ''/'') ''measurement/run'' = [''measurement'', ''run'']"
  by simp

text \<open>
  C1. Single-flight admission: while the job process is alive, \<open>start_process\<close> starts
  nothing, returns the process object it was given and publishes exactly one event, the
  warning-level (30) log \<open>Measurement server busy!\<close>; while no job process is alive, it
  starts exactly one new process and publishes the retained status \<open>Busy\<close> right after.
\<close>

theorem start_process_single_flight:
  "(alive p \<longrightarrow>
      start_process host p req new_pid =
        (p, [PublishSingle ''measurement/log'' (PLevelMsg WARNING ''Measurement server busy!'') 2
               False host]))
   \<and> (\<not> alive p \<longrightarrow>
      start_process host p req new_pid =
        (\<lparr>pid = Some new_pid, alive = True\<rparr>,
         [ProcessStart (Some new_pid) req,
          PublishSingle ''measurement/status'' (PStr ''Busy'') 2 True host]))"
  by (simp add: start_process_def WARNING_def)

theorem start_process_single_flight_witness:
  "start_process ''127.0.0.1'' \<lparr>pid = Some 7, alive = True\<rparr> (PyDict []) 8 =
     (\<lparr>pid = Some 7, alive = True\<rparr>,
      [PublishSingle ''measurement/log'' (PLevelMsg WARNING ''Measurement server busy!'') 2 False
         ''127.0.0.1''])
   \<and> start_process ''127.0.0.1'' \<lparr>pid = None, alive = False\<rparr> (PyDict []) 8 =
     (\<lparr>pid = Some 8, alive = True\<rparr>,
      [ProcessStart (Some 8) (PyDict []),
       PublishSingle ''measurement/status'' (PStr ''Busy'') 2 True ''127.0.0.1''])"
  using start_process_single_flight [of "\<lparr>pid = Some 7, alive = True\<rparr>" "''127.0.0.1''" "PyDict []" 8]
    start_process_single_flight [of "\<lparr>pid = None, alive = False\<rparr>" "''127.0.0.1''" "PyDict []" 8]
  by simp

text \<open>
  C3. Stopping a live job whose process exits after the signal: SIGINT, the join, then the
  log \<open>Request to stop completed!\<close>, the retained status \<open>Ready\<close> and the empty
  live-device list, in this order. The last publication carries no retain flag.
\<close>

theorem stop_process_alive_events:
  "stop_process ''127.0.0.1'' \<lparr>pid = Some 7, alive = True\<rparr> True =
     (Some \<lparr>pid = Some 7, alive = False\<rparr>,
      [OsKill (Some 7), ProcessJoin (Some 7),
       PublishSingle ''measurement/log'' (PLevelMsg INFO ''Request to stop completed!'') 2 False
         ''127.0.0.1'',
       PublishSingle ''measurement/status'' (PStr ''Ready'') 2 True ''127.0.0.1'',
       PublishSingle ''plotter/live_devices'' (PLabels []) 2 False ''127.0.0.1''])"
  by (simp add: stop_process_def INFO_def)

text \<open>
  C4, as stated: stopping while idle publishes exactly one informational-level (20)
  \<open>nothing to stop\<close> log. The event the code publishes has level 30.
\<close>

theorem stop_process_idle_counterexample:
  "snd (stop_process ''127.0.0.1'' \<lparr>pid = None, alive = False\<rparr> True) \<noteq>
     [PublishSingle ''measurement/log''
        (PLevelMsg INFO ''Nothing to stop. Measurement server is idle.'') 2 False ''127.0.0.1'']"
  by (simp add: stop_process_def INFO_def)

text \<open>
  C4, amended. Stopping while no job process is alive publishes exactly one event, the
  warning-level (30) log \<open>Nothing to stop. Measurement server is idle.\<close>; no signal is
  sent, no status is published, and the process object comes back as it was.
\<close>

theorem stop_process_idle:
  "\<not> alive p \<Longrightarrow>
   stop_process host p job_exits =
     (Some p,
      [PublishSingle ''measurement/log''
         (PLevelMsg WARNING ''Nothing to stop. Measurement server is idle.'') 2 False host])"
  by (simp add: stop_process_def WARNING_def)

theorem stop_process_idle_witness:
  "stop_process ''127.0.0.1'' \<lparr>pid = None, alive = False\<rparr> True =
     (Some \<lparr>pid = None, alive = False\<rparr>,
      [PublishSingle ''measurement/log''
         (PLevelMsg WARNING ''Nothing to stop. Measurement server is idle.'') 2 False
         ''127.0.0.1''])"
  using stop_process_idle [of "\<lparr>pid = None, alive = False\<rparr>" "''127.0.0.1''" True]
  by simp

section \<open>Properties of the message handler\<close>

text \<open>
  C10. A message on \<open>measurement/run\<close> whose \<open>args\<close> carry \<open>enable_eqe\<close> and \<open>enable_iv\<close>,
  both \<open>False\<close>, is consumed without any effect: no process is started, nothing is
  published, and the state of the handler is the one before, whatever it was.
\<close>

theorem run_disabled_silently_consumed:
  assumes "topic msg = ''measurement/run''"
    and "payload msg = Some req"
    and "subscript req ''args'' = Inr a"
    and "subscript a ''enable_eqe'' = Inr (PyBool False)"
    and "subscript a ''enable_iv'' = Inr (PyBool False)"
  shows "msg_handler_step host s msg new_pid job_exits = (Some s, [])"
  using assms
  by (simp add: msg_handler_step_def msg_handler_try_def run_enabled_def)

theorem run_disabled_silently_consumed_witness:
  "msg_handler_step ''127.0.0.1''
     \<lparr>proc = \<lparr>pid = None, alive = False\<rparr>, daq_init_queue = []\<rparr>
     \<lparr>topic = ''measurement/run'',
      payload = Some (PyDict [(''args'',
         PyDict [(''enable_eqe'', PyBool False), (''enable_iv'', PyBool False)])])\<rparr> 8 True
   = (Some \<lparr>proc = \<lparr>pid = None, alive = False\<rparr>, daq_init_queue = []\<rparr>, [])"
  using run_disabled_silently_consumed
    [of "\<lparr>topic = ''measurement/run'',
          payload = Some (PyDict [(''args'',
            PyDict [(''enable_eqe'', PyBool False), (''enable_iv'', PyBool False)])])\<rparr>"
        "PyDict [(''args'', PyDict [(''enable_eqe'', PyBool False), (''enable_iv'', PyBool False)])]"
        "PyDict [(''enable_eqe'', PyBool False), (''enable_iv'', PyBool False)]"
        "''127.0.0.1''" "\<lparr>proc = \<lparr>pid = None, alive = False\<rparr>, daq_init_queue = []\<rparr>" 8 True]
  by simp

section \<open>Properties of malformed and unrecognised messages\<close>

text \<open>
  Payloads on which \<open>manager\<close> raises outside any \<open>try\<close>, which ends its thread: on a
  bytes object the membership test of \<open>filter_cmd\<close> raises; a list, tuple, set or string
  that contains \<open>cmd\<close> passes \<open>filter_cmd\<close> and fails at \<open>cmd_msg['cmd']\<close>.
\<close>

lemma manager_step_bytes:
  "manager_step pcb_ok h \<lparr>topic = t, payload = Some (PyBytes b)\<rparr> =
     Inl (Exception (''a bytes-like object is required, not '' @ quote ''str''))"
  by (simp add: manager_step_def filter_cmd_def)

lemma manager_step_list_with_cmd:
  "manager_step pcb_ok h \<lparr>topic = t, payload = Some (PyList [PyStr ''cmd''])\<rparr> =
     Inl (Exception ''TypeError'')"
  by (simp add: manager_step_def filter_cmd_def)

lemma manager_step_tuple_or_set_with_cmd:
  "manager_step pcb_ok h \<lparr>topic = t, payload = Some (PyTuple [PyStr ''cmd''])\<rparr> =
     Inl (Exception ''TypeError'')"
  "manager_step pcb_ok h \<lparr>topic = t, payload = Some (PySet [PyStr ''cmd''])\<rparr> =
     Inl (Exception ''TypeError'')"
  by (simp_all add: manager_step_def filter_cmd_def)

lemma manager_step_string_with_cmd:
  "manager_step pcb_ok h \<lparr>topic = t, payload = Some (PyStr ''cmd'')\<rparr> =
     Inl (Exception ''TypeError'')"
  by (simp add: manager_step_def filter_cmd_def)

text \<open>
  C8, as stated: a message whose payload fails to deserialise is discarded with a
  warning-level log event. In \<open>msg_handler\<close> the event has level 40; in the utility
  handler \<open>filter_cmd\<close> and \<open>manager\<close> emit no warning at all and queue the placeholder
  command for the worker.
\<close>

theorem malformed_message_counterexample:
  "snd (msg_handler_step ''127.0.0.1''
          \<lparr>proc = \<lparr>pid = None, alive = False\<rparr>, daq_init_queue = []\<rparr>
          \<lparr>topic = ''measurement/run'', payload = None\<rparr> 8 True)
     = [PublisherOpen ''127.0.0.1'',
        Log ''Invalid message payload on topic: measurement/run!'' 40,
        PublisherClose]
   \<and> 40 \<noteq> WARNING
   \<and> manager_step (\<lambda>v a. True) \<lparr>taskq = [], unfinished_tasks = 0, outputq = []\<rparr>
         \<lparr>topic = ''cmd/uh'', payload = None\<rparr>
     = Inr \<lparr>taskq = [PyDict [(''cmd'', PyStr [])]], unfinished_tasks = 1,
            outputq = [StatusLog DEBUG [Lit ''New command message!'']]\<rparr>"
  by (simp add: msg_handler_step_def msg_handler_try_def invalid_payload_msg_def WARNING_def
        manager_step_def filter_cmd_def log_msg_def)

text \<open>
  C8, amended. In \<open>msg_handler\<close>, a message whose handling raises, as it does when the
  payload fails to deserialise, is discarded: one log event of level 40 (error) naming the
  topic, the state as before, and the loop goes on to the next message. In the utility
  handler, \<open>filter_cmd\<close> answers a payload that fails to deserialise, that is not
  iterable, or that is a string, list, tuple, set or dictionary without \<open>cmd\<close>, with the
  placeholder \<open>{'cmd': ''}\<close> and no log event; \<open>manager\<close> then does not raise: it logs
  the debug event \<open>New command message!\<close> and treats the placeholder as any command
  other than \<open>estop\<close>, queued when no task is unfinished and refused with a warning-level
  busy event when one is. Payloads on which the membership test or the lookup of \<open>cmd\<close>
  raises (a bytes object; a string, list, tuple or set that contains \<open>cmd\<close>) are not
  covered.
\<close>

theorem malformed_message_handling:
  "(msg_handler_try host s msg new_pid job_exits = Inl e \<longrightarrow>
      msg_handler_step host s msg new_pid job_exits =
        (Some s, [PublisherOpen host, Log (invalid_payload_msg (topic msg)) ERROR, PublisherClose])
      \<and> msg_handler host s ((msg, new_pid, job_exits) # rest) =
          (fst (msg_handler host s rest),
           [PublisherOpen host, Log (invalid_payload_msg (topic msg)) ERROR, PublisherClose]
             @ snd (msg_handler host s rest)))
   \<and> (payload msg = None \<longrightarrow>
        msg_handler_try host s msg new_pid job_exits = Inl (Exception ''UnpicklingError''))
   \<and> (payload m = None
        \<or> (\<exists>v. payload m = Some v \<and> (\<not> is_iterable v \<or> contains_cmd v = Inr False)) \<longrightarrow>
        filter_cmd m = Inr (PyDict [(''cmd'', PyStr [])])
        \<and> (unfinished_tasks h = 0 \<longrightarrow>
             manager_step pcb_ok h m =
               Inr (h\<lparr>taskq := taskq h @ [PyDict [(''cmd'', PyStr [])]],
                      unfinished_tasks := 1,
                      outputq := outputq h @ [StatusLog DEBUG [Lit ''New command message!'']]\<rparr>))
        \<and> (unfinished_tasks h > 0 \<longrightarrow>
             manager_step pcb_ok h m =
               Inr (h\<lparr>outputq := outputq h @
                      [StatusLog DEBUG [Lit ''New command message!''],
                       StatusLog WARNING
                         [Lit ''Backend busy (task queue size = '', Val (PyInt (unfinished_tasks h)),
                          Lit ''). Command rejected.'']]\<rparr>)))"
proof (intro conjI impI)
  assume "msg_handler_try host s msg new_pid job_exits = Inl e"
  then show step: "msg_handler_step host s msg new_pid job_exits =
        (Some s, [PublisherOpen host, Log (invalid_payload_msg (topic msg)) ERROR, PublisherClose])"
    by (simp add: msg_handler_step_def ERROR_def)
  then show "msg_handler host s ((msg, new_pid, job_exits) # rest) =
          (fst (msg_handler host s rest),
           [PublisherOpen host, Log (invalid_payload_msg (topic msg)) ERROR, PublisherClose]
             @ snd (msg_handler host s rest))"
    by (simp add: split_def Let_def)
next
  assume "payload msg = None"
  then show "msg_handler_try host s msg new_pid job_exits = Inl (Exception ''UnpicklingError'')"
    by (simp add: msg_handler_try_def)
next
  assume a: "payload m = None
        \<or> (\<exists>v. payload m = Some v \<and> (\<not> is_iterable v \<or> contains_cmd v = Inr False))"
  then show f: "filter_cmd m = Inr (PyDict [(''cmd'', PyStr [])])"
    by (auto simp: filter_cmd_def Let_def)
  {
    assume "unfinished_tasks h = 0"
    then show "manager_step pcb_ok h m =
               Inr (h\<lparr>taskq := taskq h @ [PyDict [(''cmd'', PyStr [])]],
                      unfinished_tasks := 1,
                      outputq := outputq h @ [StatusLog DEBUG [Lit ''New command message!'']]\<rparr>)"
      using f by (simp add: manager_step_def log_msg_def)
  }
  {
    assume "unfinished_tasks h > 0"
    then show "manager_step pcb_ok h m =
               Inr (h\<lparr>outputq := outputq h @
                      [StatusLog DEBUG [Lit ''New command message!''],
                       StatusLog WARNING
                         [Lit ''Backend busy (task queue size = '', Val (PyInt (unfinished_tasks h)),
                          Lit ''). Command rejected.'']]\<rparr>)"
      using f by (simp add: manager_step_def log_msg_def)
  }
qed

theorem malformed_message_handling_witness:
  "msg_handler_step ''127.0.0.1'' \<lparr>proc = \<lparr>pid = Some 7, alive = True\<rparr>, daq_init_queue = []\<rparr>
       \<lparr>topic = ''measurement/run'', payload = None\<rparr> 8 True
     = (Some \<lparr>proc = \<lparr>pid = Some 7, alive = True\<rparr>, daq_init_queue = []\<rparr>,
        [PublisherOpen ''127.0.0.1'',
         Log ''Invalid message payload on topic: measurement/run!'' 40, PublisherClose])
   \<and> filter_cmd \<lparr>topic = ''cmd/uh'', payload = Some (PyInt 3)\<rparr> = Inr (PyDict [(''cmd'', PyStr [])])
   \<and> manager_step (\<lambda>v a. True) \<lparr>taskq = [], unfinished_tasks = 0, outputq = []\<rparr>
        \<lparr>topic = ''cmd/uh'', payload = Some (PyInt 3)\<rparr>
     = Inr \<lparr>taskq = [PyDict [(''cmd'', PyStr [])]], unfinished_tasks = 1,
            outputq = [StatusLog DEBUG [Lit ''New command message!'']]\<rparr>
   \<and> manager_step (\<lambda>v a. True) \<lparr>taskq = [], unfinished_tasks = 1, outputq = []\<rparr>
        \<lparr>topic = ''cmd/uh'', payload = None\<rparr>
     = Inr \<lparr>taskq = [], unfinished_tasks = 1,
            outputq = [StatusLog DEBUG [Lit ''New command message!''],
                       StatusLog WARNING
                         [Lit ''Backend busy (task queue size = '', Val (PyInt 1),
                          Lit ''). Command rejected.'']]\<rparr>"
  using malformed_message_handling
    [of "''127.0.0.1''" "\<lparr>proc = \<lparr>pid = Some 7, alive = True\<rparr>, daq_init_queue = []\<rparr>"
        "\<lparr>topic = ''measurement/run'', payload = None\<rparr>" 8 True "Exception ''UnpicklingError''" "[]"
        "\<lparr>topic = ''cmd/uh'', payload = Some (PyInt 3)\<rparr>"
        "\<lparr>taskq = [], unfinished_tasks = 0, outputq = []\<rparr>" "\<lambda>v a. True"]
    malformed_message_handling
    [of "''127.0.0.1''" "\<lparr>proc = \<lparr>pid = Some 7, alive = True\<rparr>, daq_init_queue = []\<rparr>"
        "\<lparr>topic = ''measurement/run'', payload = None\<rparr>" 8 True "Exception ''UnpicklingError''" "[]"
        "\<lparr>topic = ''cmd/uh'', payload = None\<rparr>"
        "\<lparr>taskq = [], unfinished_tasks = 1, outputq = []\<rparr>" "\<lambda>v a. True"]
  by (simp add: invalid_payload_msg_def ERROR_def)

text \<open>
  C9, as stated: a well-formed command with an unrecognised \<open>cmd\<close> is dropped by the
  manager with a debug-level event and not admitted to the task queue. With no task
  unfinished the manager queues it.
\<close>

theorem unrecognized_command_counterexample:
  "''frobnicate'' \<notin> set recognized_cmds
   \<and> manager_step (\<lambda>v a. True) \<lparr>taskq = [], unfinished_tasks = 0, outputq = []\<rparr>
        \<lparr>topic = ''cmd/uh'', payload = Some (PyDict [(''cmd'', PyStr ''frobnicate'')])\<rparr>
     = Inr \<lparr>taskq = [PyDict [(''cmd'', PyStr ''frobnicate'')]], unfinished_tasks = 1,
            outputq = [StatusLog DEBUG [Lit ''New command message!'']]\<rparr>"
  by (simp add: recognized_cmds_def manager_step_def filter_cmd_def log_msg_def)

text \<open>
  C9, amended. The manager does not look at which command it holds, beyond \<open>estop\<close>: a
  well-formed command message with any other \<open>cmd\<close>, recognised or not, is queued for the
  worker when the task queue has no unfinished task and refused with a warning-level busy
  event when it has; with a counter that is never negative the debug-level
  \<open>Command message rejected\<close> event is not emitted. The worker gives a queued task whose
  command matches none of its branches the debug event \<open>New task\<close>, no instrument work,
  and \<open>task_done\<close>.
\<close>

theorem unrecognized_command_disposition:
  assumes "payload m = Some (PyDict d)"
    and "map_of d ''cmd'' = Some c"
    and "c \<noteq> PyStr ''estop''"
    and "0 \<le> unfinished_tasks h"
  shows "manager_step pcb_ok h m =
           (if unfinished_tasks h = 0 then
              Inr (h\<lparr>taskq := taskq h @ [PyDict d], unfinished_tasks := 1,
                     outputq := outputq h @ [StatusLog DEBUG [Lit ''New command message!'']]\<rparr>)
            else
              Inr (h\<lparr>outputq := outputq h @
                     [StatusLog DEBUG [Lit ''New command message!''],
                      StatusLog WARNING
                        [Lit ''Backend busy (task queue size = '', Val (PyInt (unfinished_tasks h)),
                         Lit ''). Command rejected.'']]\<rparr>))
         \<and> (worker_branch c = None \<longrightarrow>
              worker_step (h\<lparr>taskq := PyDict d # rest\<rparr>) =
                Inr (Some (h\<lparr>taskq := rest, unfinished_tasks := unfinished_tasks h - 1,
                             outputq := outputq h @
                               [StatusLog DEBUG
                                  [Lit ''New task: '', Val c, Lit '' (queue size = '',
                                   Val (PyInt (unfinished_tasks h)), Lit '')'']]\<rparr>)))"
proof -
  have k: "''cmd'' \<in> fst ` set d"
    using assms(2) by (metis domI dom_map_of_conv_image_fst)
  have f: "filter_cmd m = Inr (PyDict d)"
    using assms(1) k by (simp add: filter_cmd_def Let_def)
  have man: "manager_step pcb_ok h m =
           (if unfinished_tasks h = 0 then
              Inr (h\<lparr>taskq := taskq h @ [PyDict d], unfinished_tasks := 1,
                     outputq := outputq h @ [StatusLog DEBUG [Lit ''New command message!'']]\<rparr>)
            else
              Inr (h\<lparr>outputq := outputq h @
                     [StatusLog DEBUG [Lit ''New command message!''],
                      StatusLog WARNING
                        [Lit ''Backend busy (task queue size = '', Val (PyInt (unfinished_tasks h)),
                         Lit ''). Command rejected.'']]\<rparr>))"
    using f assms(2,3,4) by (simp add: manager_step_def log_msg_def)
  have wrk: "worker_step (h\<lparr>taskq := PyDict d # rest\<rparr>) =
                Inr (Some (h\<lparr>taskq := rest, unfinished_tasks := unfinished_tasks h - 1,
                             outputq := outputq h @
                               [StatusLog DEBUG
                                  [Lit ''New task: '', Val c, Lit '' (queue size = '',
                                   Val (PyInt (unfinished_tasks h)), Lit '')'']]\<rparr>))"
    if "worker_branch c = None"
    using that assms(2) by (simp add: worker_step_def log_msg_def)
  from man wrk show ?thesis by blast
qed

theorem unrecognized_command_disposition_witness:
  "manager_step (\<lambda>v a. True) \<lparr>taskq = [], unfinished_tasks = 0, outputq = []\<rparr>
        \<lparr>topic = ''cmd/uh'', payload = Some (PyDict [(''cmd'', PyStr ''frobnicate'')])\<rparr>
     = Inr \<lparr>taskq = [PyDict [(''cmd'', PyStr ''frobnicate'')]], unfinished_tasks = 1,
            outputq = [StatusLog DEBUG [Lit ''New command message!'']]\<rparr>
   \<and> worker_step \<lparr>taskq = [PyDict [(''cmd'', PyStr ''frobnicate'')]], unfinished_tasks = 1,
                     outputq = []\<rparr>
     = Inr (Some \<lparr>taskq = [], unfinished_tasks = 0,
                  outputq = [StatusLog DEBUG
                               [Lit ''New task: '', Val (PyStr ''frobnicate''),
                                Lit '' (queue size = '', Val (PyInt 1), Lit '')'']]\<rparr>)
   \<and> manager_step (\<lambda>v a. True) \<lparr>taskq = [], unfinished_tasks = 1, outputq = []\<rparr>
        \<lparr>topic = ''cmd/uh'', payload = Some (PyDict [(''cmd'', PyStr ''frobnicate'')])\<rparr>
     = Inr \<lparr>taskq = [], unfinished_tasks = 1,
            outputq = [StatusLog DEBUG [Lit ''New command message!''],
                       StatusLog WARNING
                         [Lit ''Backend busy (task queue size = '', Val (PyInt 1),
                          Lit ''). Command rejected.'']]\<rparr>"
  using unrecognized_command_disposition
    [of "\<lparr>topic = ''cmd/uh'', payload = Some (PyDict [(''cmd'', PyStr ''frobnicate'')])\<rparr>"
        "[(''cmd'', PyStr ''frobnicate'')]" "PyStr ''frobnicate''"
        "\<lparr>taskq = [], unfinished_tasks = 0, outputq = []\<rparr>" "\<lambda>v a. True" "[]"]
    unrecognized_command_disposition
    [of "\<lparr>topic = ''cmd/uh'', payload = Some (PyDict [(''cmd'', PyStr ''frobnicate'')])\<rparr>"
        "[(''cmd'', PyStr ''frobnicate'')]" "PyStr ''frobnicate''"
        "\<lparr>taskq = [], unfinished_tasks = 1, outputq = []\<rparr>" "\<lambda>v a. True" "[]"]
  by (simp add: worker_branch_def)

section \<open>Lemmas on jobs and their traces\<close>

lemma str_nat_1: "str_nat (Suc 0) = ''1''"
  by (simp add: str_nat.simps)

lemmas job_defs = returnE_def raiseE_def liftE_def bindE_def whenE_def catch_def emits_def emit_def
  ext_def call_def when_le_def with_fabric_def fabric_log_def clear_plot_def time_time_def

lemma appendsI:
  "(\<And>s r s'. m s = Some (r, s') \<Longrightarrow> \<exists>evs. trace s' = trace s @ evs \<and> list_all P evs)
   \<Longrightarrow> appends P m"
  by (simp add: appends_def)

lemma appendsD:
  "appends P m \<Longrightarrow> m s = Some (r, s') \<Longrightarrow> \<exists>evs. trace s' = trace s @ evs \<and> list_all P evs"
  by (simp add: appends_def)

lemma appends_returnE [intro!]: "appends P (returnE x)"
  by (simp add: appends_def returnE_def)

lemma appends_raiseE [intro!]: "appends P (raiseE e)"
  by (simp add: appends_def raiseE_def)

lemma appends_liftE [intro!]: "appends P (liftE r)"
  by (simp add: appends_def liftE_def)

lemma appends_emits [intro!]: "list_all P evs \<Longrightarrow> appends P (emits evs)"
  by (auto simp: appends_def emits_def)

lemma appends_emit [intro!]: "P ev \<Longrightarrow> appends P (emit ev)"
  by (simp add: emit_def appends_emits)

lemma appends_fabric_log [intro!]: "P (Log msg lvl) \<Longrightarrow> appends P (fabric_log msg lvl)"
  by (simp add: fabric_log_def appends_emit)

lemma appends_clear_plot [intro!]:
  "P (Append (''plotter/'' @ kind @ ''/clear'') (PStr []) False) \<Longrightarrow> appends P (clear_plot kind)"
  by (simp add: clear_plot_def appends_emit)

lemma appends_ext [intro!]: "P (Call c) \<Longrightarrow> appends P (ext f c)"
  by (auto simp: appends_def ext_def split: prod.splits)

lemma appends_call [intro!]: "P (Call c) \<Longrightarrow> appends P (call env c)"
  by (simp add: call_def appends_ext)

lemma appends_bindE [intro!]:
  assumes "appends P m" and "\<And>x. appends P (f x)"
  shows "appends P (bindE m f)"
proof (rule appendsI)
  fix s r s'
  assume b: "bindE m f s = Some (r, s')"
  show "\<exists>evs. trace s' = trace s @ evs \<and> list_all P evs"
  proof (cases "m s")
    case None
    with b show ?thesis by (simp add: bindE_def)
  next
    case (Some p)
    obtain r1 s1 where p: "p = (r1, s1)" by (cases p)
    from appendsD [OF assms(1)] Some p obtain e1
      where e1: "trace s1 = trace s @ e1" "list_all P e1" by blast
    show ?thesis
    proof (cases r1)
      case (Inl e)
      with b Some p have "s' = s1" by (simp add: bindE_def)
      with e1 show ?thesis by blast
    next
      case (Inr x)
      with b Some p have "f x s1 = Some (r, s')" by (simp add: bindE_def)
      from appendsD [OF assms(2) this] obtain e2
        where "trace s' = trace s1 @ e2" "list_all P e2" by blast
      with e1 have "trace s' = trace s @ (e1 @ e2)" "list_all P (e1 @ e2)" by simp_all
      then show ?thesis by blast
    qed
  qed
qed

lemma appends_seqE [intro!]: "list_all (appends P) ms \<Longrightarrow> appends P (seqE ms)"
  by (induction ms) (auto intro: appends_bindE)

lemma appends_whenE [intro!]: "appends P m \<Longrightarrow> appends P (whenE b m)"
  by (auto simp: whenE_def)

lemma appends_when_le [intro!]: "appends P m \<Longrightarrow> appends P (when_le env m)"
  by (auto simp: appends_def when_le_def returnE_def)


lemma appends_case_prod [intro!]:
  "(\<And>a b. appends P (f a b)) \<Longrightarrow> appends P (case x of (a, b) \<Rightarrow> f a b)"
  by (cases x) simp

lemma appends_case_option [intro!]:
  "appends P a \<Longrightarrow> (\<And>v. appends P (f v)) \<Longrightarrow> appends P (case x of None \<Rightarrow> a | Some v \<Rightarrow> f v)"
  by (cases x) simp_all



lemma quiet_simps [simp]:
  "quiet (Log m l)"
  "quiet (Call c) = (\<forall>b. c \<noteq> SmEnableOutput b)"
  "quiet (Append t p r) = (t \<noteq> ''plotter/live_devices'' \<and> t \<noteq> ''daq/stop'')"
  by (simp_all add: quiet_def) (cases c; simp)

lemma quiet_filter_live: "list_all quiet evs \<Longrightarrow> filter is_live evs = []"
  by (induction evs) (auto simp: quiet_def)


lemma quiet_handle_data: "list_all quiet (handle_data ''vtmppt_measurement'' pix sw d)"
  by (auto simp: handle_data_def list_all_iff split: option.splits)

lemma quiet_handle_all:
  "list_all quiet (concat (map (handle_data ''vtmppt_measurement'' pix sw) vt))"
  by (induction vt) (simp_all add: quiet_handle_data)

lemma quiet_steady_state_voc: "appends quiet (steady_state_voc env req sd pix)"
  unfolding steady_state_voc_def Let_def by (auto split: option.splits)

lemma quiet_one_sweep: "appends quiet (one_sweep env req sd pix sw st)"
  unfolding one_sweep_def Let_def by (auto split: option.splits)

lemma quiet_run_sweeps: "appends quiet (run_sweeps env req sd pix sws st)"
  by (induction sws arbitrary: st) (auto intro: quiet_one_sweep)

lemma quiet_steady_state_jsc: "appends quiet (steady_state_jsc env req sd pix)"
  unfolding steady_state_jsc_def Let_def by (auto split: option.splits)

lemma quiet_mppt_open: "appends quiet (mppt_open env ssvocs)"
  unfolding mppt_open_def by (intro appends_seqE) (auto split: option.splits)

lemma quiet_cycle_head: "appends quiet (cycle_head env req sd loop vars)"
  unfolding cycle_head_def Let_def
  by (intro appends_bindE appends_case_prod appends_returnE appends_liftE appends_fabric_log
        appends_ext appends_call quiet_steady_state_voc quiet_run_sweeps)
     simp_all

lemma quiet_cycle_tail: "appends quiet (cycle_tail env req sd vars)"
  unfolding cycle_tail_def
  by (intro appends_bindE appends_returnE appends_fabric_log quiet_steady_state_jsc) simp

text \<open>
  The tracking phase once its opening statements are through and the tracker has
  answered: the state and the value of the phase, for each outcome of the comparison.
\<close>

lemma mppt_after_open:
  assumes "mppt_dwell (args req) > 0"
    and "mppt_open env ssv s6 = Some (Inr (), s7)"
    and "track_max_power env (track_call req ci) pix (world s7) = (Inr ((mt, vt), pix'), w8)"
  shows "max_power_tracking env req ci ssv pix ld dsw s6 =
     (if length pix \<noteq> length pix' then
        (if pix' = [] then
           Some (Inr (Break, pix', ld),
             \<lparr>world = w8,
              trace = trace s7 @ [Call (track_call req ci), Log ''No devices left to measure.'' 30,
                                  Append ''plotter/live_devices'' (PLabels []) True]\<rparr>)
         else
           Some (Inr (Continue, pix', labels pix'),
             \<lparr>world = w8,
              trace = trace s7 @ [Call (track_call req ci),
                                  Append ''plotter/live_devices'' (PLabels (labels pix')) True]
                        @ concat (map (handle_data ''vtmppt_measurement'' pix' dsw) vt)\<rparr>))
      else
        Some (Inr (Continue, pix', ld),
          \<lparr>world = w8,
           trace = trace s7 @ [Call (track_call req ci)]
                     @ concat (map (handle_data ''vtmppt_measurement'' pix' dsw) vt)\<rparr>))"
  using assms
  by (simp add: max_power_tracking_def Let_def bindE_def ext_def whenE_def emits_def emit_def
        returnE_def fabric_log_def)









subsection \<open>The job ends\<close>

lemma returnsD: "returns m \<Longrightarrow> \<exists>r s'. m s = Some (r, s')"
  unfolding returns_def by (metis option.exhaust surj_pair)

lemma returns_returnE [intro!]: "returns (returnE x)"
  by (simp add: returns_def returnE_def)

lemma returns_raiseE [intro!]: "returns (raiseE e)"
  by (simp add: returns_def raiseE_def)

lemma returns_liftE [intro!]: "returns (liftE r)"
  by (simp add: returns_def liftE_def)

lemma returns_emits [intro!]: "returns (emits evs)"
  by (simp add: returns_def emits_def)

lemma returns_emit [intro!]: "returns (emit ev)"
  by (simp add: emit_def returns_emits)

lemma returns_fabric_log [intro!]: "returns (fabric_log msg lvl)"
  by (simp add: fabric_log_def returns_emit)

lemma returns_clear_plot [intro!]: "returns (clear_plot kind)"
  by (simp add: clear_plot_def returns_emit)

lemma returns_ext [intro!]: "returns (ext f c)"
  by (simp add: returns_def ext_def split: prod.splits)

lemma returns_call [intro!]: "returns (call env c)"
  by (simp add: call_def returns_ext)

lemma returns_bindE [intro!]: "returns m \<Longrightarrow> (\<And>x. returns (f x)) \<Longrightarrow> returns (bindE m f)"
  by (auto simp: returns_def bindE_def split: option.splits sum.splits)

lemma returns_seqE [intro!]: "list_all returns ms \<Longrightarrow> returns (seqE ms)"
  by (induction ms) (auto intro: returns_bindE)

lemma returns_whenE [intro!]: "returns m \<Longrightarrow> returns (whenE b m)"
  by (auto simp: whenE_def)

lemma returns_when_le [intro!]: "returns m \<Longrightarrow> returns (when_le env m)"
  by (auto simp: returns_def when_le_def returnE_def)

lemma returns_if [intro!]: "returns a \<Longrightarrow> returns b \<Longrightarrow> returns (if c then a else b)"
  by simp

lemma returns_case_prod [intro!]:
  "(\<And>a b. returns (f a b)) \<Longrightarrow> returns (case x of (a, b) \<Rightarrow> f a b)"
  by (cases x) simp

lemma returns_case_option [intro!]:
  "returns a \<Longrightarrow> (\<And>v. returns (f v)) \<Longrightarrow> returns (case x of None \<Rightarrow> a | Some v \<Rightarrow> f v)"
  by (cases x) simp_all

lemma returns_catch [intro!]: "returns m \<Longrightarrow> (\<And>e. returns (h e)) \<Longrightarrow> returns (catch m h)"
  by (auto simp: returns_def catch_def split: option.splits sum.splits)

lemma returns_time_time [intro!]: "returns (time_time env)"
  by (simp add: returns_def time_time_def)

lemma returns_with_fabric [intro!]: "returns m \<Longrightarrow> returns (with_fabric env m)"
proof -
  assume m: "returns m"
  have "with_fabric env m s \<noteq> None" for s
  proof -
    from returnsD [OF returns_call] obtain r0 s0 where
      c0: "call env FabricEnter s = Some (r0, s0)" by blast
    from returnsD [OF m] obtain r s' where b: "m s0 = Some (r, s')" by blast
    from returnsD [OF returns_call] obtain r2 s'' where
      c2: "call env FabricExit s' = Some (r2, s'')" by blast
    show ?thesis
      using c0 b c2 by (cases r0; cases r2) (simp_all add: with_fabric_def bindE_def)
  qed
  then show ?thesis by (simp add: returns_def)
qed

lemma returns_steady_state_voc: "returns (steady_state_voc env req sd pix)"
  unfolding steady_state_voc_def Let_def by auto

lemma returns_one_sweep: "returns (one_sweep env req sd pix sw st)"
  unfolding one_sweep_def Let_def by (auto split: option.splits)

lemma returns_run_sweeps: "returns (run_sweeps env req sd pix sws st)"
  by (induction sws arbitrary: st) (auto intro: returns_one_sweep)

lemma returns_max_power_tracking: "returns (max_power_tracking env req ci ssv pix ld dsw)"
  unfolding max_power_tracking_def mppt_open_def Let_def by (auto split: option.splits)

lemma returns_steady_state_jsc: "returns (steady_state_jsc env req sd pix)"
  unfolding steady_state_jsc_def Let_def by auto

lemma returns_cycle: "returns (cycle env req sd loop vars)"
  unfolding cycle_def cycle_head_def cycle_tail_def Let_def
  by (intro returns_bindE returns_case_prod returns_if returns_returnE returns_liftE
        returns_fabric_log returns_ext returns_call returns_steady_state_voc returns_run_sweeps
        returns_max_power_tracking returns_steady_state_jsc)

lemma ivt_loop_ends:
  "0 < cycles (args req) \<Longrightarrow> nat (cycles (args req)) \<le> fuel + loop
   \<Longrightarrow> ivt_loop fuel env req sd loop vars s \<noteq> None"
proof (induction fuel arbitrary: loop vars s)
  case 0
  then show ?case by auto
next
  case (Suc fuel)
  show ?case
  proof (cases "int loop < cycles (args req)")
    case False
    with Suc.prems show ?thesis by simp
  next
    case True
    from returnsD [OF returns_cycle]
    obtain r1 s1 where c: "cycle env req sd (loop + 1) vars s = Some (r1, s1)" by blast
    show ?thesis
    proof (cases r1)
      case (Inl e)
      with c True show ?thesis by simp
    next
      case (Inr x)
      obtain fl vars' where x: "x = (fl, vars')" by (cases x)
      from Suc.prems have "nat (cycles (args req)) \<le> fuel + (loop + 1)" by simp
      from Suc.IH [OF Suc.prems(1) this]
      have "ivt_loop fuel env req sd (loop + 1) vars' s1 \<noteq> None" .
      with c True Inr x show ?thesis by (cases fl) simp_all
    qed
  qed
qed

lemma ivt_ends:
  assumes "0 < cycles (args req)" and "nat (cycles (args req)) \<le> fuel"
  shows "returns (ivt fuel env req pix)"
proof -
  have "returns (ivt_loop fuel env req sd 0 vars)" for sd vars
    unfolding returns_def using ivt_loop_ends [OF assms(1), of fuel 0 env sd vars] assms(2)
    by simp
  then show ?thesis
    unfolding ivt_def ivt_setup_def ivt_teardown_def Let_def by auto
qed

lemma run_ends:
  assumes "0 < cycles (args req)" and "nat (cycles (args req)) \<le> fuel"
  shows "returns (run fuel env req host daq_reply)"
  unfolding run_def run_checks_def run_job_def run_body_def calibrate_spectrum_def daq_check_def Let_def
  using ivt_ends [OF assms]
  by (auto split: exn.splits)

section \<open>Properties of the measurement sequencer\<close>

text \<open>
  C6. With \<open>sweep_check\<close> true, the sweep list of a cycle is \<open>[dark, light]\<close> for the
  selector 0, \<open>[light, dark]\<close> for 1, \<open>[dark]\<close> for 2 and \<open>[light]\<close> for 3; for every other
  selector it is empty, and the loop over the sweeps does nothing: no event, no use of the
  instruments.
\<close>

theorem sweep_selector_correct:
  assumes "sweep_check (args req)"
  shows "(lit_sweep (args req) = 0 \<longrightarrow> sweeps_of (args req) = [''dark'', ''light''])
       \<and> (lit_sweep (args req) = 1 \<longrightarrow> sweeps_of (args req) = [''light'', ''dark''])
       \<and> (lit_sweep (args req) = 2 \<longrightarrow> sweeps_of (args req) = [''dark''])
       \<and> (lit_sweep (args req) = 3 \<longrightarrow> sweeps_of (args req) = [''light''])
       \<and> (lit_sweep (args req) \<notin> {0, 1, 2, 3} \<longrightarrow>
            sweeps_of (args req) = []
            \<and> run_sweeps env req settling_delay pix (sweeps_of (args req)) st s = Some (Inr st, s))"
  using assms by (simp add: sweeps_of_def returnE_def)

theorem sweep_selector_correct_witness:
  "sweeps_of (sim_args\<lparr>sweep_check := True, lit_sweep := 0\<rparr>) = [''dark'', ''light'']
   \<and> sweeps_of (sim_args\<lparr>sweep_check := True, lit_sweep := 1\<rparr>) = [''light'', ''dark'']
   \<and> sweeps_of (sim_args\<lparr>sweep_check := True, lit_sweep := 2\<rparr>) = [''dark'']
   \<and> sweeps_of (sim_args\<lparr>sweep_check := True, lit_sweep := 3\<rparr>) = [''light'']
   \<and> sweeps_of (sim_args\<lparr>sweep_check := True, lit_sweep := 4\<rparr>) = []
   \<and> run_sweeps (sim_env True None id)
        \<lparr>config = sim_config, args = sim_args\<lparr>sweep_check := True, lit_sweep := 4\<rparr>\<rparr> (3 / 1000)
        [(0, sim_pixel)] (sweeps_of (sim_args\<lparr>sweep_check := True, lit_sweep := 4\<rparr>)) (None, [])
        sim_start
      = Some (Inr (None, []), sim_start)"
  using sweep_selector_correct
      [of "\<lparr>config = sim_config, args = sim_args\<lparr>sweep_check := True, lit_sweep := 0\<rparr>\<rparr>"]
    sweep_selector_correct
      [of "\<lparr>config = sim_config, args = sim_args\<lparr>sweep_check := True, lit_sweep := 1\<rparr>\<rparr>"]
    sweep_selector_correct
      [of "\<lparr>config = sim_config, args = sim_args\<lparr>sweep_check := True, lit_sweep := 2\<rparr>\<rparr>"]
    sweep_selector_correct
      [of "\<lparr>config = sim_config, args = sim_args\<lparr>sweep_check := True, lit_sweep := 3\<rparr>\<rparr>"]
    sweep_selector_correct
      [of "\<lparr>config = sim_config, args = sim_args\<lparr>sweep_check := True, lit_sweep := 4\<rparr>\<rparr>"
          "sim_env True None id" "3 / 1000" "[(0, sim_pixel)]" "(None, [])" sim_start]
  by (simp add: sim_args_def returnE_def)

lemmas sim_defs = sim_env_def sim_request_def sim_args_def sim_config_def sim_pixel_def
  sim_pixel_b_def sim_start_def sim_rows_def

lemmas ivt_defs = ivt_def ivt_setup_def ivt_teardown_def cycle_def cycle_head_def cycle_tail_def
  steady_state_voc_def sweeps_of_def max_power_tracking_def mppt_open_def track_call_def
  steady_state_jsc_def first_area_def labels_def py_int_def handle_data_def


text \<open>
  C7. Take a cycle of the loop with \<open>mppt_dwell > 0\<close> in which the statements before the
  tracker go through and the tracker answers, leaving the pixel queue \<open>pix'\<close>. Up to that
  point the cycle has published nothing on \<open>plotter/live_devices\<close>, and the data events
  that follow the tracker publish nothing there either. If the queue has the size it had
  before, the cycle goes on to its remaining statements with nothing published on that
  topic. If the size differs and the queue is not empty, the labels of the devices left
  are published there once, retained, and the cycle goes on. If the size differs and the
  queue is empty, the warning \<open>No devices left to measure.\<close> is logged, the empty list is
  published retained, the cycle ends there, and the loop returns at once, with no further
  phase or cycle. The remaining statements of a cycle never publish on that topic.
\<close>

theorem pruning_reconciliation:
  assumes "mppt_dwell (args req) > 0"
    and "int loop < cycles (args req) \<or> cycles (args req) = 0"
    and "cycle_head env req sd (loop + 1) vars s = Some (Inr (ci, ssv, vo, dsw), s6)"
    and "mppt_open env ssv s6 = Some (Inr (), s7)"
    and "track_max_power env (track_call req ci) (v_pixels vars) (world s7)
           = (Inr ((mt, vt), pix'), w8)"
  shows "(\<exists>e. trace s7 = trace s @ e \<and> filter is_live e = [])
     \<and> filter is_live (concat (map (handle_data ''vtmppt_measurement'' pix' dsw) vt)) = []
     \<and> (length pix' = length (v_pixels vars) \<longrightarrow>
          cycle env req sd (loop + 1) vars s =
            cycle_tail env req sd \<lparr>v_pixels = pix', v_ld = v_ld vars, v_iv1_vocs = vo\<rparr>
              \<lparr>world = w8,
               trace = trace s7 @ [Call (track_call req ci)]
                         @ concat (map (handle_data ''vtmppt_measurement'' pix' dsw) vt)\<rparr>)
     \<and> (length pix' \<noteq> length (v_pixels vars) \<and> pix' \<noteq> [] \<longrightarrow>
          cycle env req sd (loop + 1) vars s =
            cycle_tail env req sd \<lparr>v_pixels = pix', v_ld = labels pix', v_iv1_vocs = vo\<rparr>
              \<lparr>world = w8,
               trace = trace s7 @ [Call (track_call req ci),
                                   Append ''plotter/live_devices'' (PLabels (labels pix')) True]
                         @ concat (map (handle_data ''vtmppt_measurement'' pix' dsw) vt)\<rparr>)
     \<and> (length pix' \<noteq> length (v_pixels vars) \<and> pix' = [] \<longrightarrow>
          cycle env req sd (loop + 1) vars s =
            Some (Inr (Break, \<lparr>v_pixels = [], v_ld = v_ld vars, v_iv1_vocs = vo\<rparr>),
              \<lparr>world = w8,
               trace = trace s7 @ [Call (track_call req ci),
                                   Log ''No devices left to measure.'' WARNING,
                                   Append ''plotter/live_devices'' (PLabels []) True]\<rparr>)
          \<and> ivt_loop (Suc fuel) env req sd loop vars s =
            Some (Inr \<lparr>v_pixels = [], v_ld = v_ld vars, v_iv1_vocs = vo\<rparr>,
              \<lparr>world = w8,
               trace = trace s7 @ [Call (track_call req ci),
                                   Log ''No devices left to measure.'' WARNING,
                                   Append ''plotter/live_devices'' (PLabels []) True]\<rparr>))
     \<and> (\<forall>vars2 st r s'. cycle_tail env req sd vars2 st = Some (r, s') \<longrightarrow>
          (\<exists>e. trace s' = trace st @ e \<and> filter is_live e = []))"
proof -
  let ?pix = "v_pixels vars"
  let ?data = "concat (map (handle_data ''vtmppt_measurement'' pix' dsw) vt)"
  from appendsD [OF quiet_cycle_head assms(3)] obtain e6 where
    e6: "trace s6 = trace s @ e6" "list_all quiet e6" by blast
  from appendsD [OF quiet_mppt_open assms(4)] obtain e7 where
    e7: "trace s7 = trace s6 @ e7" "list_all quiet e7" by blast
  have "trace s7 = trace s @ (e6 @ e7)" using e6(1) e7(1) by simp
  moreover have "filter is_live (e6 @ e7) = []"
    using quiet_filter_live [OF e6(2)] quiet_filter_live [OF e7(2)] by simp
  ultimately have c1: "\<exists>e. trace s7 = trace s @ e \<and> filter is_live e = []" by blast
  have c2: "filter is_live ?data = []"
    by (rule quiet_filter_live [OF quiet_handle_all])
  note m = mppt_after_open [OF assms(1) assms(4) assms(5), of "v_ld vars" dsw]
  have c3: "length pix' = length ?pix \<longrightarrow>
          cycle env req sd (loop + 1) vars s =
            cycle_tail env req sd \<lparr>v_pixels = pix', v_ld = v_ld vars, v_iv1_vocs = vo\<rparr>
              \<lparr>world = w8, trace = trace s7 @ [Call (track_call req ci)] @ ?data\<rparr>"
    using assms(3) m by (simp add: cycle_def bindE_def)
  have c4: "length pix' \<noteq> length ?pix \<and> pix' \<noteq> [] \<longrightarrow>
          cycle env req sd (loop + 1) vars s =
            cycle_tail env req sd \<lparr>v_pixels = pix', v_ld = labels pix', v_iv1_vocs = vo\<rparr>
              \<lparr>world = w8,
               trace = trace s7 @ [Call (track_call req ci),
                                   Append ''plotter/live_devices'' (PLabels (labels pix')) True]
                         @ ?data\<rparr>"
    using assms(3) m by (auto simp: cycle_def bindE_def)
  have c5a: "length pix' \<noteq> length ?pix \<and> pix' = [] \<longrightarrow>
          cycle env req sd (loop + 1) vars s =
            Some (Inr (Break, \<lparr>v_pixels = [], v_ld = v_ld vars, v_iv1_vocs = vo\<rparr>),
              \<lparr>world = w8,
               trace = trace s7 @ [Call (track_call req ci),
                                   Log ''No devices left to measure.'' WARNING,
                                   Append ''plotter/live_devices'' (PLabels []) True]\<rparr>)"
    using assms(3) m by (auto simp: cycle_def bindE_def returnE_def WARNING_def)
  have c5: "length pix' \<noteq> length ?pix \<and> pix' = [] \<longrightarrow>
          cycle env req sd (loop + 1) vars s =
            Some (Inr (Break, \<lparr>v_pixels = [], v_ld = v_ld vars, v_iv1_vocs = vo\<rparr>),
              \<lparr>world = w8,
               trace = trace s7 @ [Call (track_call req ci),
                                   Log ''No devices left to measure.'' WARNING,
                                   Append ''plotter/live_devices'' (PLabels []) True]\<rparr>)
          \<and> ivt_loop (Suc fuel) env req sd loop vars s =
            Some (Inr \<lparr>v_pixels = [], v_ld = v_ld vars, v_iv1_vocs = vo\<rparr>,
              \<lparr>world = w8,
               trace = trace s7 @ [Call (track_call req ci),
                                   Log ''No devices left to measure.'' WARNING,
                                   Append ''plotter/live_devices'' (PLabels []) True]\<rparr>)"
    using c5a assms(2) by auto
  have c6: "\<forall>vars2 st r s'. cycle_tail env req sd vars2 st = Some (r, s') \<longrightarrow>
          (\<exists>e. trace s' = trace st @ e \<and> filter is_live e = [])"
  proof (intro allI impI)
    fix vars2 st r s'
    assume "cycle_tail env req sd vars2 st = Some (r, s')"
    from appendsD [OF quiet_cycle_tail this] obtain e where
      "trace s' = trace st @ e" "list_all quiet e" by blast
    then show "\<exists>e. trace s' = trace st @ e \<and> filter is_live e = []"
      using quiet_filter_live by blast
  qed
  from c1 c2 c3 c4 c5 c6 show ?thesis by blast
qed

text \<open>
  A request with only the tracking phase, on two devices, and what the simulated
  instruments do with it up to the tracker, whatever the tracker prunes.
\<close>

lemma sim_cycle_head:
  "cycle_head (sim_env True None f)
     (sim_request\<lparr>args := sim_args\<lparr>cycles := 0, i_dwell := 0, mppt_dwell := 5\<rparr>\<rparr>) (3 / 1000) (0 + 1)
     \<lparr>v_pixels = [(0, sim_pixel), (1, sim_pixel_b)], v_ld = [''s1_a1'', ''s2_b1''],
      v_iv1_vocs = None\<rparr> sim_start
   = Some (Inr (1 / 10, None, None, []),
       \<lparr>world = (),
        trace = [Log ''### Loop 1 ###'' 20, Call (ComplianceCurrentGuess 1 50 (1 / 20)),
                 Call (SetMpptCurrentCompliance (1 / 10))]\<rparr>)"
  by (simp add: ivt_defs job_defs sim_defs str_nat_1)

lemma sim_mppt_open:
  "mppt_open (sim_env True None f) None
     \<lparr>world = (),
      trace = [Log ''### Loop 1 ###'' 20, Call (ComplianceCurrentGuess 1 50 (1 / 20)),
               Call (SetMpptCurrentCompliance (1 / 10))]\<rparr>
   = Some (Inr (),
       \<lparr>world = (),
        trace = [Log ''### Loop 1 ###'' 20, Call (ComplianceCurrentGuess 1 50 (1 / 20)),
                 Call (SetMpptCurrentCompliance (1 / 10)), Call LeOn,
                 Log ''Performing max. power tracking.'' 20,
                 Append ''plotter/mppt_measurement/clear'' (PStr []) False]\<rparr>)"
  by (simp add: ivt_defs job_defs sim_defs)

lemma sim_track:
  "track_max_power (sim_env True None f) c pix w = (Inr (([], []), f pix), w)"
  by (simp add: sim_env_def)

theorem pruning_reconciliation_witness:
  "cycle (sim_env True None id)
     (sim_request\<lparr>args := sim_args\<lparr>cycles := 0, i_dwell := 0, mppt_dwell := 5\<rparr>\<rparr>) (3 / 1000) (0 + 1)
     \<lparr>v_pixels = [(0, sim_pixel), (1, sim_pixel_b)], v_ld = [''s1_a1'', ''s2_b1''],
      v_iv1_vocs = None\<rparr> sim_start
   = cycle_tail (sim_env True None id)
       (sim_request\<lparr>args := sim_args\<lparr>cycles := 0, i_dwell := 0, mppt_dwell := 5\<rparr>\<rparr>) (3 / 1000)
       \<lparr>v_pixels = [(0, sim_pixel), (1, sim_pixel_b)], v_ld = [''s1_a1'', ''s2_b1''],
        v_iv1_vocs = None\<rparr>
       \<lparr>world = (),
        trace = [Log ''### Loop 1 ###'' 20, Call (ComplianceCurrentGuess 1 50 (1 / 20)),
                 Call (SetMpptCurrentCompliance (1 / 10)), Call LeOn,
                 Log ''Performing max. power tracking.'' 20,
                 Append ''plotter/mppt_measurement/clear'' (PStr []) False,
                 Call (TrackMaxPower 5 1 ''basic://'' 3 (1 / 10))]\<rparr>
   \<and> cycle (sim_env True None tl)
     (sim_request\<lparr>args := sim_args\<lparr>cycles := 0, i_dwell := 0, mppt_dwell := 5\<rparr>\<rparr>) (3 / 1000) (0 + 1)
     \<lparr>v_pixels = [(0, sim_pixel), (1, sim_pixel_b)], v_ld = [''s1_a1'', ''s2_b1''],
      v_iv1_vocs = None\<rparr> sim_start
   = cycle_tail (sim_env True None tl)
       (sim_request\<lparr>args := sim_args\<lparr>cycles := 0, i_dwell := 0, mppt_dwell := 5\<rparr>\<rparr>) (3 / 1000)
       \<lparr>v_pixels = [(1, sim_pixel_b)], v_ld = [''s2_b1''], v_iv1_vocs = None\<rparr>
       \<lparr>world = (),
        trace = [Log ''### Loop 1 ###'' 20, Call (ComplianceCurrentGuess 1 50 (1 / 20)),
                 Call (SetMpptCurrentCompliance (1 / 10)), Call LeOn,
                 Log ''Performing max. power tracking.'' 20,
                 Append ''plotter/mppt_measurement/clear'' (PStr []) False,
                 Call (TrackMaxPower 5 1 ''basic://'' 3 (1 / 10)),
                 Append ''plotter/live_devices'' (PLabels [''s2_b1'']) True]\<rparr>
   \<and> ivt_loop (Suc 0) (sim_env True None (\<lambda>p. []))
     (sim_request\<lparr>args := sim_args\<lparr>cycles := 0, i_dwell := 0, mppt_dwell := 5\<rparr>\<rparr>) (3 / 1000) 0
     \<lparr>v_pixels = [(0, sim_pixel), (1, sim_pixel_b)], v_ld = [''s1_a1'', ''s2_b1''],
      v_iv1_vocs = None\<rparr> sim_start
   = Some (Inr \<lparr>v_pixels = [], v_ld = [''s1_a1'', ''s2_b1''], v_iv1_vocs = None\<rparr>,
       \<lparr>world = (),
        trace = [Log ''### Loop 1 ###'' 20, Call (ComplianceCurrentGuess 1 50 (1 / 20)),
                 Call (SetMpptCurrentCompliance (1 / 10)), Call LeOn,
                 Log ''Performing max. power tracking.'' 20,
                 Append ''plotter/mppt_measurement/clear'' (PStr []) False,
                 Call (TrackMaxPower 5 1 ''basic://'' 3 (1 / 10)),
                 Log ''No devices left to measure.'' 30,
                 Append ''plotter/live_devices'' (PLabels []) True]\<rparr>)"
proof -
  let ?req = "sim_request\<lparr>args := sim_args\<lparr>cycles := 0, i_dwell := 0, mppt_dwell := 5\<rparr>\<rparr>"
  have h1: "mppt_dwell (args ?req) > 0" by simp
  have h2: "int 0 < cycles (args ?req) \<or> cycles (args ?req) = 0" by simp
  note t = pruning_reconciliation [OF h1 h2 sim_cycle_head sim_mppt_open sim_track]
  from t [of id 0] t [of tl 0] t [of "\<lambda>p. []" 0]
  show ?thesis
    by (simp del: ivt_loop.simps
          add: track_call_def labels_def sim_pixel_b_def sim_request_def sim_args_def
            sim_config_def WARNING_def)
qed














end
